theory Spec2Isabelle
  imports Complex_Main "HOL-Library.Char_ord"
begin

section \<open>Python strings and the \<open>re\<close> module\<close>

text \<open>
  Strings are lists of 8-bit characters, read as the code points 0..255 (Latin-1).
  The character classes below are those of Python 3 \<open>str\<close> patterns on that range.
\<close>

definition is_space :: "char \<Rightarrow> bool" where
  \<comment> \<open>\<open>str.isspace\<close> and the class \<open>\s\<close>: TAB..CR, FS..US, space, NEL, NBSP.\<close>
  "is_space c \<longleftrightarrow>
     (CHR 0x09 \<le> c \<and> c \<le> CHR 0x0D) \<or> (CHR 0x1C \<le> c \<and> c \<le> CHR 0x20)
     \<or> c = CHR 0x85 \<or> c = CHR 0xA0"

definition is_ascii_alnum :: "char \<Rightarrow> bool" where
  "is_ascii_alnum c \<longleftrightarrow>
     (CHR ''a'' \<le> c \<and> c \<le> CHR ''z'') \<or> (CHR ''A'' \<le> c \<and> c \<le> CHR ''Z'')
     \<or> (CHR ''0'' \<le> c \<and> c \<le> CHR ''9'')"

definition is_word :: "char \<Rightarrow> bool" where
  \<comment> \<open>The class \<open>\w\<close>: \<open>str.isalnum\<close> or underscore, on the code points below 256.\<close>
  "is_word c \<longleftrightarrow>
     is_ascii_alnum c \<or> c = CHR ''_''
     \<or> c = CHR 0xAA \<or> c = CHR 0xB2 \<or> c = CHR 0xB3 \<or> c = CHR 0xB5 \<or> c = CHR 0xB9
     \<or> c = CHR 0xBA \<or> (CHR 0xBC \<le> c \<and> c \<le> CHR 0xBE)
     \<or> (CHR 0xC0 \<le> c \<and> c \<le> CHR 0xD6) \<or> (CHR 0xD8 \<le> c \<and> c \<le> CHR 0xF6)
     \<or> CHR 0xF8 \<le> c"

definition lower_chr :: "char \<Rightarrow> char" where
  \<comment> \<open>\<open>str.lower\<close> on one code point below 256.\<close>
  "lower_chr c =
     (if (CHR ''A'' \<le> c \<and> c \<le> CHR ''Z'')
         \<or> (CHR 0xC0 \<le> c \<and> c \<le> CHR 0xDE \<and> c \<noteq> CHR 0xD7)
      then char_of (of_char c + (32::nat)) else c)"

definition lower :: "string \<Rightarrow> string" where
  "lower s = map lower_chr s"

text \<open>The items of a bracketed set, and the regular expressions the source uses.\<close>

datatype cset = CChr char | CRng char char | CSpc | CWrd

fun in_cset :: "cset \<Rightarrow> char \<Rightarrow> bool" where
  "in_cset (CChr d) c = (c = d)"
| "in_cset (CRng lo hi) c = (lo \<le> c \<and> c \<le> hi)"
| "in_cset CSpc c = is_space c"
| "in_cset CWrd c = is_word c"

datatype regex =
    Lit char
  | Set "cset list"
  | NSet "cset list"
  | Eps
  | Seq regex regex
  | Alt regex regex
  | Rep nat "nat option" regex
  | Grp nat regex
  | Bol
  | Eol

abbreviation Opt :: "regex \<Rightarrow> regex" where "Opt r \<equiv> Rep 0 (Some 1) r"
abbreviation Star :: "regex \<Rightarrow> regex" where "Star r \<equiv> Rep 0 None r"
abbreviation Plus :: "regex \<Rightarrow> regex" where "Plus r \<equiv> Rep 1 None r"

definition seqs :: "regex list \<Rightarrow> regex" where
  "seqs rs = foldr Seq rs Eps"

definition lits :: "string \<Rightarrow> regex" where
  "lits s = seqs (map Lit s)"

fun rsize :: "regex \<Rightarrow> nat" where
  "rsize (Seq a b) = Suc (rsize a + rsize b)"
| "rsize (Alt a b) = Suc (rsize a + rsize b)"
| "rsize (Rep m n r) = Suc (rsize r)"
| "rsize (Grp k r) = Suc (rsize r)"
| "rsize _ = 0"

definition lit_eq :: "bool \<Rightarrow> char \<Rightarrow> char \<Rightarrow> bool" where
  \<comment> \<open>A literal of the pattern against a character, under \<open>re.IGNORECASE\<close> or not.\<close>
  "lit_eq ic d c = (if ic then lower_chr c = lower_chr d else c = d)"

fun dec :: "nat option \<Rightarrow> nat option" where
  "dec None = None"
| "dec (Some n) = Some (n - 1)"

type_synonym groups = "nat \<rightharpoonup> string"
type_synonym mstate = "nat \<times> string \<times> groups"

text \<open>
  \<open>matches ic r (i, s, g)\<close> lists, in the order a backtracking matcher tries them, the
  states reached by matching \<open>r\<close> at position \<open>i\<close>, where \<open>s\<close> is the text from \<open>i\<close> on
  and \<open>g\<close> the groups captured so far. The first state is the one \<open>re\<close> reports.
  A greedy repetition stops at an iteration that consumes nothing.
\<close>

function matches :: "bool \<Rightarrow> regex \<Rightarrow> mstate \<Rightarrow> mstate list" where
  "matches ic (Lit d) (i, s, g) =
     (case s of [] \<Rightarrow> [] | c # cs \<Rightarrow> if lit_eq ic d c then [(Suc i, cs, g)] else [])"
| "matches ic (Set xs) (i, s, g) =
     (case s of [] \<Rightarrow> [] | c # cs \<Rightarrow> if (\<exists>x \<in> set xs. in_cset x c) then [(Suc i, cs, g)] else [])"
| "matches ic (NSet xs) (i, s, g) =
     (case s of [] \<Rightarrow> [] | c # cs \<Rightarrow> if (\<exists>x \<in> set xs. in_cset x c) then [] else [(Suc i, cs, g)])"
| "matches ic Eps st = [st]"
| "matches ic (Seq a b) st = concat (map (matches ic b) (matches ic a st))"
| "matches ic (Alt a b) st = matches ic a st @ matches ic b st"
| "matches ic (Grp k r) (i, s, g) =
     map (\<lambda>(j, s', g'). (j, s', g'(k \<mapsto> take (j - i) s))) (matches ic r (i, s, g))"
| "matches ic Bol (i, s, g) = (if i = 0 then [(i, s, g)] else [])"
| "matches ic Eol (i, s, g) = (if s = [] \<or> s = [CHR 0x0A] then [(i, s, g)] else [])"
| "matches ic (Rep (Suc m) n r) st =
     concat (map (matches ic (Rep m (dec n) r)) (matches ic r st))"
| "matches ic (Rep 0 n r) (i, s, g) =
     (if n = Some 0 then [(i, s, g)]
      else concat (map (matches ic (Rep 0 (dec n) r))
                    (filter (\<lambda>(j, s', g'). length s' < length s) (matches ic r (i, s, g))))
           @ [(i, s, g)])"
  by pat_completeness auto
termination
  by (relation "inv_image (less_than <*lex*> less_than <*lex*> less_than)
        (\<lambda>(ic, r, (i, s, g)). (rsize r, (case r of Rep m n r' \<Rightarrow> m | _ \<Rightarrow> 0), length s))")
     auto


definition re_match :: "bool \<Rightarrow> regex \<Rightarrow> string \<Rightarrow> bool" where
  \<comment> \<open>\<open>bool(re.match(r, s))\<close>: a match that starts at position 0.\<close>
  "re_match ic r s \<longleftrightarrow> matches ic r (0, s, Map.empty) \<noteq> []"

fun search_from :: "bool \<Rightarrow> regex \<Rightarrow> nat \<Rightarrow> string \<Rightarrow> bool" where
  "search_from ic r i [] \<longleftrightarrow> matches ic r (i, [], Map.empty) \<noteq> []"
| "search_from ic r i (c # cs) \<longleftrightarrow>
     matches ic r (i, c # cs, Map.empty) \<noteq> [] \<or> search_from ic r (Suc i) cs"

definition re_search :: "bool \<Rightarrow> regex \<Rightarrow> string \<Rightarrow> bool" where
  \<comment> \<open>\<open>bool(re.search(r, s))\<close>: a match that starts at any position.\<close>
  "re_search ic r s \<longleftrightarrow> search_from ic r 0 s"

text \<open>
  A replacement template: \<open>\1***\3\<close> is \<open>[Ref 1, Txt ''***'', Ref 3]\<close>. A group that took
  no part in the match expands to the empty string.
\<close>

datatype repl = Ref nat | Txt string

fun expand :: "repl list \<Rightarrow> groups \<Rightarrow> string" where
  "expand [] g = []"
| "expand (Ref k # t) g = (case g k of None \<Rightarrow> [] | Some v \<Rightarrow> v) @ expand t g"
| "expand (Txt v # t) g = v @ expand t g"

text \<open>
  \<open>re.sub\<close> from position \<open>i\<close> on: the leftmost match is replaced and the scan goes on
  behind it; where nothing matches, one character is copied. After an empty match the
  next character is copied, as Python 3.7 and later do.
\<close>

function sub_from :: "bool \<Rightarrow> regex \<Rightarrow> repl list \<Rightarrow> nat \<Rightarrow> string \<Rightarrow> string" where
  "sub_from ic r tpl i s =
     (case matches ic r (i, s, Map.empty) of
        [] \<Rightarrow> (case s of [] \<Rightarrow> [] | c # cs \<Rightarrow> c # sub_from ic r tpl (Suc i) cs)
      | m # _ \<Rightarrow>
          (case m of (j, s', g) \<Rightarrow>
             if length s' < length s then expand tpl g @ sub_from ic r tpl j s'
             else expand tpl g
                  @ (case s of [] \<Rightarrow> [] | c # cs \<Rightarrow> c # sub_from ic r tpl (Suc i) cs)))"
  by pat_completeness auto
termination
  by (relation "measure (\<lambda>(ic, r, tpl, i, s). length s)") auto

declare sub_from.simps [simp del]

definition re_sub :: "bool \<Rightarrow> regex \<Rightarrow> repl list \<Rightarrow> string \<Rightarrow> string" where
  "re_sub ic r tpl s = sub_from ic r tpl 0 s"

text \<open>
  For the proofs: \<open>needs P ic r\<close> says that every match of \<open>r\<close> takes in a character
  that satisfies \<open>P\<close>, by the shape of \<open>r\<close> alone.
\<close>

fun needs :: "(char \<Rightarrow> bool) \<Rightarrow> bool \<Rightarrow> regex \<Rightarrow> bool" where
  "needs P ic (Lit d) = (\<forall>c. lit_eq ic d c \<longrightarrow> P c)"
| "needs P ic (Set xs) = (\<forall>c. (\<exists>x \<in> set xs. in_cset x c) \<longrightarrow> P c)"
| "needs P ic (NSet xs) = (\<forall>c. \<not> (\<exists>x \<in> set xs. in_cset x c) \<longrightarrow> P c)"
| "needs P ic (Seq a b) = (needs P ic a \<or> needs P ic b)"
| "needs P ic (Alt a b) = (needs P ic a \<and> needs P ic b)"
| "needs P ic (Rep m n r) = (0 < m \<and> needs P ic r)"
| "needs P ic (Grp k r) = needs P ic r"
| "needs P ic _ = False"

section \<open>SecretManager.mask_sensitive_data (src/security/secrets.py)\<close>

definition quote :: "cset list" where
  \<comment> \<open>\<open>["\']\<close>\<close>
  "quote = [CChr (CHR 0x22), CChr (CHR 0x27)]"

definition assign_tail :: "regex list" where
  \<comment> \<open>\<open>["\']?\s*[:=]\s*["\']?\<close>\<close>
  "assign_tail =
     [Opt (Set quote), Star (Set [CSpc]), Set [CChr (CHR '':''), CChr (CHR ''='')],
      Star (Set [CSpc]), Opt (Set quote)]"

definition value_groups :: "regex list" where
  \<comment> \<open>\<open>([^"\'\s]+)(["\']?)\<close>\<close>
  "value_groups = [Grp 2 (Plus (NSet (quote @ [CSpc]))), Grp 3 (Opt (Set quote))]"

definition pat_password :: regex where
  \<comment> \<open>\<open>(password["\']?\s*[:=]\s*["\']?)([^"\'\s]+)(["\']?)\<close>\<close>
  "pat_password = seqs (Grp 1 (seqs (lits ''password'' # assign_tail)) # value_groups)"

definition pat_api_key :: regex where
  \<comment> \<open>\<open>((?:api[_-]?key|access[_-]?token)["\']?\s*[:=]\s*["\']?)([^"\'\s]+)(["\']?)\<close>\<close>
  "pat_api_key =
     seqs (Grp 1 (seqs
        (Alt (seqs [lits ''api'', Opt (Set [CChr (CHR ''_''), CChr (CHR ''-'')]), lits ''key''])
             (seqs [lits ''access'', Opt (Set [CChr (CHR ''_''), CChr (CHR ''-'')]),
                    lits ''token''])
         # assign_tail)) # value_groups)"

definition pat_url :: regex where
  \<comment> \<open>\<open>(https?://[^:]+:)([^@]+)(@)\<close>\<close>
  "pat_url =
     seqs [Grp 1 (seqs [lits ''http'', Opt (Lit (CHR ''s'')), lits ''://'',
                        Plus (NSet [CChr (CHR '':'')]), Lit (CHR '':'')]),
           Grp 2 (Plus (NSet [CChr (CHR ''@'')])),
           Grp 3 (Lit (CHR ''@''))]"

definition pat_email :: regex where
  \<comment> \<open>\<open>(\w+)(@\w+\.\w+)\<close>\<close>
  "pat_email =
     seqs [Grp 1 (Plus (Set [CWrd])),
           Grp 2 (seqs [Lit (CHR ''@''), Plus (Set [CWrd]), Lit (CHR ''.''), Plus (Set [CWrd])])]"

definition pat_path :: regex where
  \<comment> \<open>\<open>(/[^/]*(?:secret|private|key|credential)[^/]*/)([^/\s]+)\<close>\<close>
  "pat_path =
     seqs [Grp 1 (seqs [Lit (CHR ''/''), Star (NSet [CChr (CHR ''/'')]),
                        Alt (lits ''secret'') (Alt (lits ''private'')
                          (Alt (lits ''key'') (lits ''credential''))),
                        Star (NSet [CChr (CHR ''/'')]), Lit (CHR ''/'')]),
           Grp 2 (Plus (NSet [CChr (CHR ''/''), CSpc]))]"

definition patterns :: "(regex \<times> repl list) list" where
  "patterns =
     [(pat_password, [Ref 1, Txt ''***'', Ref 3]),
      (pat_api_key, [Ref 1, Txt ''***'', Ref 3]),
      (pat_url, [Ref 1, Txt ''***'', Ref 3]),
      (pat_email, [Txt ''***'', Ref 2]),
      (pat_path, [Ref 1, Txt ''***''])]"

definition mask_sensitive_data :: "string \<Rightarrow> string" where
  "mask_sensitive_data text =
     (if text = [] then text
      else fold (\<lambda>(pattern, replacement) masked_text.
                   re_sub True pattern replacement masked_text) patterns text)"


section \<open>Providers and BackupResult (src/providers/base.py)\<close>

text \<open>
  What a call into a provider can do: return a value, or raise. \<open>Exception m\<close> stands for
  any instance of Python's \<open>Exception\<close> with \<open>str(e) = m\<close>; the other two are the
  \<open>BaseException\<close>s that \<open>except Exception\<close> does not catch.
\<close>

datatype exn = Exception string | KeyboardInterrupt | SystemExit

datatype 'a outcome = Returns 'a | Raises exn

record SharingConfig =
  emails :: "string list"
  role :: string
  make_public :: bool

record GoogleDriveConfig =
  folder :: string
  credentials_file :: string
  retention_days :: int

text \<open>Of \<open>Config\<close>, the two parts that \<open>execute_backup\<close> hands to the providers.\<close>

record Config =
  google_drive :: GoogleDriveConfig
  sharing :: SharingConfig

record 't BackupResult =
  success :: bool
  backup_id :: "string option"
  error :: "string option"
  files_cleaned :: int
  duration :: "'t option"
  backup_size :: "string option"

definition new_BackupResult :: "'t BackupResult" where
  \<comment> \<open>The defaults of the dataclass.\<close>
  "new_BackupResult =
     \<lparr>success = False, backup_id = None, error = None, files_cleaned = 0,
      duration = None, backup_size = None\<rparr>"

text \<open>
  The abstract methods of the two interfaces, typed as they are annotated. Each is
  called at most once in a run, so a provider is the outcome of each of its methods, as
  a function of the argument.
\<close>

record BackupProvider =
  bp_authenticate :: "bool outcome"
  create_backup :: "string \<Rightarrow> string option outcome"
  validate_setup :: "bool outcome"

record StorageProvider =
  sp_authenticate :: "bool outcome"
  upload :: "string \<Rightarrow> string option outcome"
  configure_access :: "SharingConfig \<Rightarrow> bool outcome"
  cleanup_old_files :: "int \<Rightarrow> int outcome"

section \<open>BackupOrchestrator (src/core/backup.py)\<close>

text \<open>
  The surroundings of one run: the two readings of \<open>time.time()\<close> (on entry, and in
  step 7), the directory that \<open>TemporaryDirectory\<close> hands out, and \<open>get_file_size\<close> of
  src/utils.py, which either returns the formatted size (\<open>Inr\<close>) or lets the \<open>OSError\<close>
  of \<open>os.path.getsize\<close> through (\<open>Inl\<close>, with its message). The type of the clock is
  left open: only its subtraction is used. Creating and removing the temporary
  directory is taken to succeed. Printing through \<open>Logger\<close> changes nothing in the
  result and is left out, and so is what \<open>_cleanup_local_files\<close> does to the file
  system: it catches every \<open>Exception\<close> of its own, and only the fact that it runs is
  recorded.
\<close>

record 't sys =
  time_at_start :: 't
  time_at_done :: 't
  temp_dir :: string
  get_file_size :: "string \<Rightarrow> string + string"

text \<open>The calls a run makes, in order.\<close>

datatype call =
    Validate_setup
  | Source_authenticate
  | Sink_authenticate
  | Create_backup string
  | Upload string
  | Configure_access SharingConfig
  | Cleanup_old_files int
  | Get_file_size string
  | Cleanup_local_files

definition orch_validate_setup :: "BackupProvider \<Rightarrow> (exn + bool) \<times> call list" where
  \<comment> \<open>\<open>_validate_setup\<close>: an \<open>Exception\<close> is logged and becomes \<open>False\<close>.\<close>
  "orch_validate_setup bp =
     (case validate_setup bp of
        Returns ok \<Rightarrow> (Inr ok, [Validate_setup])
      | Raises (Exception m) \<Rightarrow> (Inr False, [Validate_setup])
      | Raises e \<Rightarrow> (Inl e, [Validate_setup]))"

definition orch_authenticate_providers ::
    "BackupProvider \<Rightarrow> StorageProvider \<Rightarrow> (exn + bool) \<times> call list" where
  \<comment> \<open>\<open>_authenticate_providers\<close>: the source first, the sink only after it.\<close>
  "orch_authenticate_providers bp sp =
     (case bp_authenticate bp of
        Raises (Exception m) \<Rightarrow> (Inr False, [Source_authenticate])
      | Raises e \<Rightarrow> (Inl e, [Source_authenticate])
      | Returns ok \<Rightarrow>
          if \<not> ok then (Inr False, [Source_authenticate])
          else (case sp_authenticate sp of
                  Raises (Exception m) \<Rightarrow> (Inr False, [Source_authenticate, Sink_authenticate])
                | Raises e \<Rightarrow> (Inl e, [Source_authenticate, Sink_authenticate])
                | Returns ok' \<Rightarrow> (Inr ok', [Source_authenticate, Sink_authenticate])))"

text \<open>
  The body of the \<open>try\<close>: the result as assigned so far, the exception in flight if the
  body was left by one, and the calls made. \<open>if not backup_file\<close> and \<open>if not file_id\<close>
  hold for \<open>None\<close> and for the empty string.
\<close>

definition try_body ::
    "Config \<Rightarrow> BackupProvider \<Rightarrow> StorageProvider \<Rightarrow> 't::minus sys \<Rightarrow> 't BackupResult
     \<Rightarrow> 't BackupResult \<times> exn option \<times> call list" where
  "try_body config bp sp sys result =
     (case orch_validate_setup bp of
        (Inl e, t1) \<Rightarrow> (result, Some e, t1)
      | (Inr ok1, t1) \<Rightarrow>
     if \<not> ok1 then (result\<lparr>error := Some ''Setup validation failed''\<rparr>, None, t1)
     else
     (case orch_authenticate_providers bp sp of
        (Inl e, t2) \<Rightarrow> (result, Some e, t1 @ t2)
      | (Inr ok2, t2) \<Rightarrow>
     if \<not> ok2 then (result\<lparr>error := Some ''Provider authentication failed''\<rparr>, None, t1 @ t2)
     else
     (let t3 = t1 @ t2 @ [Create_backup (temp_dir sys)] in
      case create_backup bp (temp_dir sys) of
        Raises e \<Rightarrow> (result, Some e, t3)
      | Returns None \<Rightarrow> (result\<lparr>error := Some ''Backup creation failed''\<rparr>, None, t3)
      | Returns (Some backup_file) \<Rightarrow>
     if backup_file = [] then (result\<lparr>error := Some ''Backup creation failed''\<rparr>, None, t3)
     else
     (let t4 = t3 @ [Upload backup_file] in
      case upload sp backup_file of
        Raises e \<Rightarrow> (result, Some e, t4)
      | Returns None \<Rightarrow> (result\<lparr>error := Some ''Upload failed''\<rparr>, None, t4)
      | Returns (Some file_id) \<Rightarrow>
     if file_id = [] then (result\<lparr>error := Some ''Upload failed''\<rparr>, None, t4)
     else
     (let t5 = t4 @ [Configure_access (sharing config)] in
      case configure_access sp (sharing config) of
        Raises e \<Rightarrow> (result, Some e, t5)
      | Returns shared \<Rightarrow>
     (let t6 = t5 @ [Cleanup_old_files (retention_days (google_drive config))] in
      case cleanup_old_files sp (retention_days (google_drive config)) of
        Raises e \<Rightarrow> (result, Some e, t6)
      | Returns cleaned \<Rightarrow>
     (let result7 = result\<lparr>success := True, backup_id := Some file_id,
                            files_cleaned := cleaned,
                            duration := Some (time_at_done sys - time_at_start sys)\<rparr>;
          t7 = t6 @ [Get_file_size backup_file] in
      case get_file_size sys backup_file of
        Inl m \<Rightarrow> (result7, Some (Exception m), t7)
      | Inr sz \<Rightarrow> (result7\<lparr>backup_size := Some sz\<rparr>, None, t7))))))))"

definition execute_backup ::
    "Config \<Rightarrow> BackupProvider \<Rightarrow> StorageProvider \<Rightarrow> 't::minus sys
     \<Rightarrow> (exn + 't BackupResult) \<times> call list" where
  \<comment> \<open>\<open>except Exception\<close> masks the message into the result; \<open>finally\<close> runs on every
      path; anything that is not an \<open>Exception\<close> goes on to the caller.\<close>
  "execute_backup config bp sp sys =
     (case try_body config bp sp sys new_BackupResult of
        (result, None, t) \<Rightarrow> (Inr result, t @ [Cleanup_local_files])
      | (result, Some (Exception m), t) \<Rightarrow>
          (Inr (result\<lparr>error := Some (mask_sensitive_data m)\<rparr>), t @ [Cleanup_local_files])
      | (result, Some e, t) \<Rightarrow> (Inl e, t @ [Cleanup_local_files]))"


text \<open>A configuration, two providers that succeed at everything, and surroundings, to run on.\<close>

definition example_config :: Config where
  "example_config =
     \<lparr>google_drive = \<lparr>folder = ''backup/site.org'',
                       credentials_file = ''config/gdrive-credentials.json'',
                       retention_days = 7\<rparr>,
      sharing = \<lparr>emails = [''ops@site.org''], role = ''writer'', make_public = False\<rparr>\<rparr>"

definition ok_source :: BackupProvider where
  "ok_source =
     \<lparr>bp_authenticate = Returns True,
      create_backup = (\<lambda>d. Returns (Some (d @ ''/site.org_backup.tar.gz''))),
      validate_setup = Returns True\<rparr>"

definition ok_sink :: StorageProvider where
  "ok_sink =
     \<lparr>sp_authenticate = Returns True,
      upload = (\<lambda>p. Returns (Some ''file123'')),
      configure_access = (\<lambda>s. Returns True),
      cleanup_old_files = (\<lambda>n. Returns 3)\<rparr>"

definition example_sys :: "real sys" where
  "example_sys =
     \<lparr>time_at_start = 1000, time_at_done = 1042, temp_dir = ''/tmp/wp_backup_x1'',
      get_file_size = (\<lambda>p. Inr ''12.5MB'')\<rparr>"

section \<open>SecretManager.get_secret (src/security/secrets.py)\<close>

text \<open>String methods of Python that the source calls.\<close>

definition strip :: "string \<Rightarrow> string" where
  \<comment> \<open>\<open>s.strip()\<close>\<close>
  "strip s = rev (dropWhile is_space (rev (dropWhile is_space s)))"

definition strip_chars :: "string \<Rightarrow> string \<Rightarrow> string" where
  \<comment> \<open>\<open>s.strip(chars)\<close>\<close>
  "strip_chars chars s =
     rev (dropWhile (\<lambda>c. c \<in> set chars) (rev (dropWhile (\<lambda>c. c \<in> set chars) s)))"

definition startswith :: "string \<Rightarrow> string \<Rightarrow> bool" where
  \<comment> \<open>\<open>s.startswith(p)\<close>\<close>
  "startswith s p \<longleftrightarrow> take (length p) s = p"

definition endswith :: "string \<Rightarrow> string \<Rightarrow> bool" where
  \<comment> \<open>\<open>s.endswith(p)\<close>\<close>
  "endswith s p \<longleftrightarrow> length p \<le> length s \<and> drop (length s - length p) s = p"

fun contains :: "string \<Rightarrow> string \<Rightarrow> bool" where
  \<comment> \<open>\<open>p in s\<close>, for strings\<close>
  "contains [] p \<longleftrightarrow> p = []"
| "contains (c # cs) p \<longleftrightarrow> startswith (c # cs) p \<or> contains cs p"

definition split_once :: "char \<Rightarrow> string \<Rightarrow> string \<times> string" where
  \<comment> \<open>\<open>s.split(sep, 1)\<close> of a string that contains \<open>sep\<close>\<close>
  "split_once sep s = (takeWhile (\<lambda>c. c \<noteq> sep) s, drop 1 (dropWhile (\<lambda>c. c \<noteq> sep) s))"

text \<open>
  What the process finds around it: the environment variables; for each path, whether a
  file exists there and what iterating over it yields (a line, or a failure of \<open>open\<close> or
  of decoding, which is an \<open>Exception\<close>); and what the user does at a prompt.
\<close>

datatype file_item = Line string | ReadError

record world =
  environ :: "string \<rightharpoonup> string"
  files :: "string \<rightharpoonup> file_item list"
  getpass :: "string \<Rightarrow> string outcome"
  input :: "string \<Rightarrow> string outcome"

definition env_file_paths :: "string list" where
  "env_file_paths = [''.env.local'', ''.env'']"

text \<open>The loop of \<open>_load_from_env_file\<close> over the lines; \<open>except Exception: pass\<close> ends it.\<close>

fun scan_lines :: "string \<Rightarrow> file_item list \<Rightarrow> string option" where
  "scan_lines key [] = None"
| "scan_lines key (ReadError # rest) = None"
| "scan_lines key (Line l # rest) =
     (let line = strip l in
      if startswith line ''#'' \<or> CHR ''='' \<notin> set line then scan_lines key rest
      else (case split_once (CHR ''='') line of (env_key, env_value) \<Rightarrow>
              if strip env_key = key
              then (let v = strip_chars [CHR 0x27, CHR 0x22] (strip env_value)
                    in if v \<noteq> [] then Some v else None)
              else scan_lines key rest))"

definition load_from_env_file :: "world \<Rightarrow> string \<Rightarrow> string \<Rightarrow> string option" where
  "load_from_env_file w key env_file =
     (case files w env_file of None \<Rightarrow> None | Some items \<Rightarrow> scan_lines key items)"

definition prompt_for_secret :: "world \<Rightarrow> string \<Rightarrow> string \<Rightarrow> exn + string option" where
  \<comment> \<open>Only \<open>KeyboardInterrupt\<close> is caught.\<close>
  "prompt_for_secret w key message =
     (case (if contains (lower key) ''password'' \<or> contains (lower key) ''secret''
            then getpass w (message @ '': '')
            else (case input w (message @ '': '') of
                    Returns v \<Rightarrow> Returns (strip v) | Raises e \<Rightarrow> Raises e)) of
        Returns v \<Rightarrow> Inr (if v \<noteq> [] then Some v else None)
      | Raises KeyboardInterrupt \<Rightarrow> Inr None
      | Raises e \<Rightarrow> Inl e)"

text \<open>The loop of \<open>get_secret\<close> over \<open>env_file_paths\<close>.\<close>

fun first_in_files :: "world \<Rightarrow> string \<Rightarrow> string list \<Rightarrow> string option" where
  "first_in_files w key [] = None"
| "first_in_files w key (env_file # rest) =
     (case load_from_env_file w key env_file of
        None \<Rightarrow> first_in_files w key rest
      | Some v \<Rightarrow> if v \<noteq> [] then Some v else first_in_files w key rest)"

definition get_secret :: "world \<Rightarrow> string \<Rightarrow> string option \<Rightarrow> exn + string option" where
  \<comment> \<open>\<open>if value:\<close> holds for a string that is not empty.\<close>
  "get_secret w key prompt_message =
     (let value = environ w key in
      if value \<noteq> None \<and> value \<noteq> Some [] then Inr value
      else (case first_in_files w key env_file_paths of
              Some v \<Rightarrow> Inr (Some v)
            | None \<Rightarrow>
                (case prompt_message of
                   None \<Rightarrow> Inr None
                 | Some m \<Rightarrow> if m \<noteq> [] then prompt_for_secret w key m else Inr None)))"

text \<open>
  A world to run in: the variable is set but empty, \<open>.env.local\<close> has a comment and
  another key before it assigns the variable an empty value, \<open>.env\<close> assigns it a domain,
  and nobody answers a prompt.
\<close>

definition example_world :: world where
  "example_world =
     \<lparr>environ = [''WP_DOMAIN'' \<mapsto> []],
      files = [''.env.local'' \<mapsto> [Line (''# local overrides'' @ [CHR 0x0A]),
                                   Line (''WP_USER=admin'' @ [CHR 0x0A]),
                                   Line (''WP_DOMAIN = '' @ [CHR 0x22, CHR 0x22, CHR 0x0A]),
                                   Line (''WP_DOMAIN=other.org'' @ [CHR 0x0A])],
               ''.env'' \<mapsto> [Line (''# site'' @ [CHR 0x0A]),
                             Line (''WP_DOMAIN=site.org'' @ [CHR 0x0A])]],
      getpass = (\<lambda>m. Raises KeyboardInterrupt),
      input = (\<lambda>m. Raises KeyboardInterrupt)\<rparr>"

section \<open>ConfigValidator (src/security/validator.py)\<close>

text \<open>
  The configuration is a dict of dicts. Its sections are records of the keys the
  validator reads; a key that is missing, or whose value is \<open>None\<close>, is \<open>None\<close>, and a
  missing section is the section with no keys. Values are typed as
  \<open>SecureConfigLoader\<close> builds them: strings, and strings for paths (what \<open>str()\<close> of the
  value gives). The two values whose type the validator itself tests, \<open>retention_days\<close>
  and \<open>make_public\<close>, are dynamically typed: \<open>PObj\<close> is a value of any other type, named
  by its \<open>repr\<close>.
\<close>

datatype pyval = PNone | PBool bool | PInt int | PStr string | PObj string

fun isinstance_int :: "pyval \<Rightarrow> bool" where
  \<comment> \<open>\<open>isinstance(v, int)\<close>; \<open>bool\<close> is a subclass of \<open>int\<close>.\<close>
  "isinstance_int (PInt n) = True"
| "isinstance_int (PBool b) = True"
| "isinstance_int _ = False"

fun isinstance_bool :: "pyval \<Rightarrow> bool" where
  "isinstance_bool (PBool b) = True"
| "isinstance_bool _ = False"

fun int_value :: "pyval \<Rightarrow> int" where
  \<comment> \<open>The number an instance of \<open>int\<close> compares as: \<open>True\<close> is 1, \<open>False\<close> is 0.\<close>
  "int_value (PInt n) = n"
| "int_value (PBool b) = (if b then 1 else 0)"
| "int_value _ = 0"

record wordpress_section =
  wp_domain :: "string option"       \<comment> \<open>key \<open>domain\<close>\<close>
  wp_path :: "string option"         \<comment> \<open>key \<open>path\<close>\<close>
  wp_backup_dir :: "string option"   \<comment> \<open>key \<open>backup_dir\<close>\<close>

record google_drive_section =
  gd_folder :: "string option"             \<comment> \<open>key \<open>folder\<close>\<close>
  gd_credentials_file :: "string option"   \<comment> \<open>key \<open>credentials_file\<close>\<close>
  gd_retention_days :: pyval               \<comment> \<open>key \<open>retention_days\<close>\<close>

record sharing_section =
  sh_emails :: "string list"   \<comment> \<open>key \<open>emails\<close>, \<open>[]\<close> when missing\<close>
  sh_role :: "string option"   \<comment> \<open>key \<open>role\<close>\<close>
  sh_make_public :: pyval      \<comment> \<open>key \<open>make_public\<close>\<close>

record database_section =
  db_host :: "string option"   \<comment> \<open>key \<open>host\<close>\<close>
  db_name :: "string option"   \<comment> \<open>key \<open>name\<close>\<close>
  db_user :: "string option"   \<comment> \<open>key \<open>user\<close>\<close>

record config_dict =
  cd_wordpress :: wordpress_section
  cd_google_drive :: google_drive_section
  cd_sharing :: sharing_section
  cd_database :: "database_section option"   \<comment> \<open>\<open>None\<close>: missing, \<open>None\<close> or empty\<close>

text \<open>The two library calls whose answer depends on the machine.\<close>

record platform =
  normpath :: "string \<Rightarrow> string"   \<comment> \<open>\<open>os.path.normpath\<close>\<close>
  exists :: "string \<Rightarrow> bool"       \<comment> \<open>\<open>Path(p).exists()\<close>\<close>

record report =
  errors :: "string list"
  warnings :: "string list"

definition alnum :: "cset list" where
  \<comment> \<open>\<open>a-zA-Z0-9\<close>\<close>
  "alnum = [CRng (CHR ''a'') (CHR ''z''), CRng (CHR ''A'') (CHR ''Z''),
            CRng (CHR ''0'') (CHR ''9'')]"

definition alpha :: "cset list" where
  \<comment> \<open>\<open>a-zA-Z\<close>\<close>
  "alpha = [CRng (CHR ''a'') (CHR ''z''), CRng (CHR ''A'') (CHR ''Z'')]"

definition domain_pattern :: regex where
  \<comment> \<open>\<open>^(?:[a-zA-Z0-9](?:[a-zA-Z0-9-]{0,61}[a-zA-Z0-9])?\.)+[a-zA-Z]{2,}$\<close>\<close>
  "domain_pattern =
     seqs [Bol,
           Plus (seqs [Set alnum,
                       Opt (seqs [Rep 0 (Some 61) (Set (alnum @ [CChr (CHR ''-'')])),
                                  Set alnum]),
                       Lit (CHR ''.'')]),
           Rep 2 None (Set alpha),
           Eol]"

definition is_valid_domain :: "string \<Rightarrow> bool" where
  "is_valid_domain domain = re_match False domain_pattern domain"

definition email_pattern :: regex where
  \<comment> \<open>\<open>^[a-zA-Z0-9._%+-]+@[a-zA-Z0-9.-]+\.[a-zA-Z]{2,}$\<close>\<close>
  "email_pattern =
     seqs [Bol,
           Plus (Set (alnum @ [CChr (CHR ''.''), CChr (CHR ''_''), CChr (CHR ''%''),
                               CChr (CHR ''+''), CChr (CHR ''-'')])),
           Lit (CHR ''@''),
           Plus (Set (alnum @ [CChr (CHR ''.''), CChr (CHR ''-'')])),
           Lit (CHR ''.''),
           Rep 2 None (Set alpha),
           Eol]"

definition is_valid_email :: "string \<Rightarrow> bool" where
  "is_valid_email email = re_match False email_pattern email"

definition dangerous_patterns :: "regex list" where
  \<comment> \<open>\<open>\.\.\<close>, \<open>[<>"|*?]\<close>, \<open>^[/\\]+$\<close>\<close>
  "dangerous_patterns =
     [seqs [Lit (CHR ''.''), Lit (CHR ''.'')],
      Set [CChr (CHR ''<''), CChr (CHR ''>''), CChr (CHR 0x22), CChr (CHR ''|''),
           CChr (CHR ''*''), CChr (CHR ''?'')],
      seqs [Bol, Plus (Set [CChr (CHR ''/''), CChr (CHR 0x5C)]), Eol]]"

definition critical_paths :: "string list" where
  "critical_paths =
     [''/bin'', ''/boot'', ''/dev'', ''/etc'', ''/lib'', ''/proc'', ''/root'', ''/sbin'',
      ''/sys'', ''C:'' @ [CHR 0x5C] @ ''Windows'', ''C:'' @ [CHR 0x5C] @ ''Program Files'',
      ''C:'' @ [CHR 0x5C] @ ''System32'']"

definition is_safe_path :: "platform \<Rightarrow> string \<Rightarrow> bool" where
  "is_safe_path os path =
     (if \<exists>pattern \<in> set dangerous_patterns. re_search False pattern path then False
      else (let normalized_path = lower (normpath os path) in
            if \<exists>critical \<in> set critical_paths. startswith normalized_path (lower critical)
            then False else True))"

definition invalid_chars :: "char list" where
  "invalid_chars =
     [CHR ''<'', CHR ''>'', CHR '':'', CHR 0x22, CHR ''|'', CHR ''?'', CHR ''*'']"

definition is_valid_gdrive_folder :: "string \<Rightarrow> bool" where
  "is_valid_gdrive_folder folder' =
     (if strip folder' = [] then False
      else if \<exists>char \<in> set invalid_chars. char \<in> set folder' then False
      else if startswith folder' '' '' \<or> startswith folder' ''.''
              \<or> endswith folder' '' '' \<or> endswith folder' ''.'' then False
      else True)"

definition octet :: regex where
  \<comment> \<open>\<open>(?:25[0-5]|2[0-4][0-9]|[01]?[0-9][0-9]?)\<close>\<close>
  "octet =
     Alt (seqs [Lit (CHR ''2''), Lit (CHR ''5''), Set [CRng (CHR ''0'') (CHR ''5'')]])
    (Alt (seqs [Lit (CHR ''2''), Set [CRng (CHR ''0'') (CHR ''4'')],
                Set [CRng (CHR ''0'') (CHR ''9'')]])
         (seqs [Opt (Set [CChr (CHR ''0''), CChr (CHR ''1'')]),
                Set [CRng (CHR ''0'') (CHR ''9'')],
                Opt (Set [CRng (CHR ''0'') (CHR ''9'')])]))"

definition ip_pattern :: regex where
  \<comment> \<open>\<open>^(?:octet\.){3}octet$\<close>\<close>
  "ip_pattern = seqs [Bol, Rep 3 (Some 3) (seqs [octet, Lit (CHR ''.'')]), octet, Eol]"

definition is_valid_db_host :: "string \<Rightarrow> bool" where
  "is_valid_db_host host =
     (if host \<in> set [''localhost'', ''127.0.0.1'', ''::1''] then True
      else if re_match False ip_pattern host then True
      else is_valid_domain host)"

definition db_name_pattern :: regex where
  \<comment> \<open>\<open>^[a-zA-Z0-9_][a-zA-Z0-9_$]*$\<close>\<close>
  "db_name_pattern =
     seqs [Bol, Set (alnum @ [CChr (CHR ''_'')]),
           Star (Set (alnum @ [CChr (CHR ''_''), CChr (CHR ''$'')])), Eol]"

definition is_valid_db_name :: "string \<Rightarrow> bool" where
  "is_valid_db_name name \<longleftrightarrow> re_match False db_name_pattern name \<and> length name \<le> 64"

text \<open>\<open>self.errors.append\<close> and \<open>self.warnings.append\<close>.\<close>

definition add_error :: "string \<Rightarrow> report \<Rightarrow> report" where
  "add_error m rp = rp\<lparr>errors := errors rp @ [m]\<rparr>"

definition add_warning :: "string \<Rightarrow> report \<Rightarrow> report" where
  "add_warning m rp = rp\<lparr>warnings := warnings rp @ [m]\<rparr>"

text \<open>
  \<open>v = d.get(key)\<close> followed by \<open>if not v\<close>: the value is missing, \<open>None\<close> or the empty
  string; otherwise it is the string \<open>truthy\<close> returns.
\<close>

fun truthy :: "string option \<Rightarrow> string option" where
  "truthy None = None"
| "truthy (Some s) = (if s = [] then None else Some s)"

definition validate_wordpress_config :: "platform \<Rightarrow> wordpress_section \<Rightarrow> report \<Rightarrow> report" where
  "validate_wordpress_config os wp_config rp =
     (let rp1 = (case truthy (wp_domain wp_config) of
                   None \<Rightarrow> add_error ''WordPress domain is required'' rp
                 | Some domain \<Rightarrow>
                     if \<not> is_valid_domain domain
                     then add_error (''Invalid WordPress domain format: '' @ domain) rp
                     else if domain \<in> set [''example.com'', ''localhost'', ''test.com'']
                     then add_warning
                            (''WordPress domain looks like a placeholder: '' @ domain) rp
                     else rp);
          rp2 = (case truthy (wp_path wp_config) of
                   None \<Rightarrow> add_error ''WordPress path is required'' rp1
                 | Some wp_path' \<Rightarrow>
                     if \<not> is_safe_path os wp_path'
                     then add_error (''WordPress path appears unsafe: '' @ wp_path') rp1
                     else rp1)
      in case truthy (wp_backup_dir wp_config) of
           None \<Rightarrow> rp2
         | Some backup_dir \<Rightarrow>
             if \<not> is_safe_path os backup_dir
             then add_error (''Backup directory appears unsafe: '' @ backup_dir) rp2
             else rp2)"

definition validate_google_drive_config ::
    "platform \<Rightarrow> google_drive_section \<Rightarrow> report \<Rightarrow> report" where
  "validate_google_drive_config os gdrive_config rp =
     (let rp1 = (case truthy (gd_folder gdrive_config) of
                   None \<Rightarrow> add_error ''Google Drive folder is required'' rp
                 | Some folder' \<Rightarrow>
                     if \<not> is_valid_gdrive_folder folder'
                     then add_error (''Invalid Google Drive folder path: '' @ folder') rp
                     else rp);
          rp2 = (case truthy (gd_credentials_file gdrive_config) of
                   None \<Rightarrow> add_error ''Google Drive credentials file is required'' rp1
                 | Some creds_file \<Rightarrow>
                     if \<not> exists os creds_file
                     then add_warning
                            (''Google Drive credentials file not found: '' @ creds_file) rp1
                     else rp1);
          retention_days' = gd_retention_days gdrive_config
      in if retention_days' \<noteq> PNone
            \<and> (\<not> isinstance_int retention_days' \<or> int_value retention_days' < 1
                 \<or> int_value retention_days' > 365)
         then add_error ''Retention days must be between 1 and 365'' rp2
         else rp2)"

definition validate_sharing_config :: "sharing_section \<Rightarrow> report \<Rightarrow> report" where
  "validate_sharing_config sharing_config rp =
     (let rp1 = fold (\<lambda>email r. if \<not> is_valid_email email
                                  then add_error (''Invalid email format: '' @ email) r else r)
                  (sh_emails sharing_config) rp;
          rp2 = (case truthy (sh_role sharing_config) of
                   None \<Rightarrow> rp1
                 | Some role' \<Rightarrow>
                     if role' \<notin> set [''reader'', ''writer'']
                     then add_error (''Invalid sharing role: '' @ role' @ ''. Must be ''
                                     @ [CHR 0x27] @ ''reader'' @ [CHR 0x27] @ '' or ''
                                     @ [CHR 0x27] @ ''writer'' @ [CHR 0x27]) rp1
                     else rp1);
          make_public' = sh_make_public sharing_config
      in if make_public' \<noteq> PNone \<and> \<not> isinstance_bool make_public'
         then add_error ''make_public must be a boolean value'' rp2
         else rp2)"

definition validate_database_config :: "database_section \<Rightarrow> report \<Rightarrow> report" where
  "validate_database_config db_config rp =
     (let rp1 = fold (\<lambda>(field, v) r. if truthy v = None
                                       then add_error (''Database '' @ field @ '' is required'') r
                                       else r)
                  [(''host'', db_host db_config), (''name'', db_name db_config),
                   (''user'', db_user db_config)] rp;
          rp2 = (case truthy (db_host db_config) of
                   None \<Rightarrow> rp1
                 | Some host \<Rightarrow>
                     if \<not> is_valid_db_host host
                     then add_warning (''Database host format might be invalid: '' @ host) rp1
                     else rp1)
      in case truthy (db_name db_config) of
           None \<Rightarrow> rp2
         | Some name \<Rightarrow>
             if \<not> is_valid_db_name name
             then add_error (''Invalid database name format: '' @ name) rp2
             else rp2)"

definition validate_full_config :: "platform \<Rightarrow> config_dict \<Rightarrow> bool \<times> report" where
  \<comment> \<open>The report starts empty (\<open>clear()\<close>); the result is \<open>len(self.errors) == 0\<close>.\<close>
  "validate_full_config os config =
     (let rp0 = \<lparr>errors = [], warnings = []\<rparr>;
          rp1 = validate_wordpress_config os (cd_wordpress config) rp0;
          rp2 = validate_google_drive_config os (cd_google_drive config) rp1;
          rp3 = validate_sharing_config (cd_sharing config) rp2;
          rp4 = (case cd_database config of
                   None \<Rightarrow> rp3
                 | Some db \<Rightarrow> validate_database_config db rp3)
      in (length (errors rp4) = 0, rp4))"

text \<open>A platform and a configuration that passes every check, to vary.\<close>

definition example_platform :: platform where
  "example_platform = \<lparr>normpath = (\<lambda>p. p), exists = (\<lambda>p. True)\<rparr>"

definition valid_config :: config_dict where
  "valid_config =
     \<lparr>cd_wordpress = \<lparr>wp_domain = Some ''site.org'', wp_path = Some ''/var/www/site.org'',
                       wp_backup_dir = Some ''/tmp/wp-backup''\<rparr>,
      cd_google_drive = \<lparr>gd_folder = Some ''backup/site.org'',
                          gd_credentials_file = Some ''config/gdrive-credentials.json'',
                          gd_retention_days = PInt 7\<rparr>,
      cd_sharing = \<lparr>sh_emails = [''ops@site.org''], sh_role = Some ''writer'',
                     sh_make_public = PBool False\<rparr>,
      cd_database = None\<rparr>"

section \<open>Facts about the orchestrator\<close>

lemmas orch_defs = execute_backup_def try_body_def orch_validate_setup_def
  orch_authenticate_providers_def new_BackupResult_def Let_def

lemmas orch_splits = outcome.splits exn.splits option.splits sum.splits if_splits prod.splits

lemmas example_defs = example_config_def ok_source_def ok_sink_def example_sys_def

lemma mask_boom: "mask_sensitive_data ''boom'' = ''boom''"
  by code_simp

text \<open>A call that appears in the trace was reached: every call before it returned, and
  returned what lets the run go on.\<close>

lemma source_authenticate_called:
  "execute_backup config bp sp sys = (res, t) \<Longrightarrow> Source_authenticate \<in> set t \<Longrightarrow>
     validate_setup bp = Returns True"
  by (auto simp: orch_defs split: orch_splits)

lemma sink_authenticate_called:
  "execute_backup config bp sp sys = (res, t) \<Longrightarrow> Sink_authenticate \<in> set t \<Longrightarrow>
     validate_setup bp = Returns True \<and> bp_authenticate bp = Returns True"
  by (auto simp: orch_defs split: orch_splits)

lemma create_backup_called:
  "execute_backup config bp sp sys = (res, t) \<Longrightarrow> Create_backup d \<in> set t \<Longrightarrow>
     d = temp_dir sys \<and> validate_setup bp = Returns True \<and> bp_authenticate bp = Returns True
     \<and> sp_authenticate sp = Returns True"
  by (auto simp: orch_defs split: orch_splits)

lemma upload_called:
  "execute_backup config bp sp sys = (res, t) \<Longrightarrow> Upload p \<in> set t \<Longrightarrow>
     validate_setup bp = Returns True \<and> bp_authenticate bp = Returns True
     \<and> sp_authenticate sp = Returns True
     \<and> create_backup bp (temp_dir sys) = Returns (Some p) \<and> p \<noteq> []"
  by (auto simp: orch_defs split: orch_splits)

lemma configure_access_called:
  "execute_backup config bp sp sys = (res, t) \<Longrightarrow> Configure_access sh \<in> set t \<Longrightarrow>
     sh = sharing config \<and> validate_setup bp = Returns True \<and> bp_authenticate bp = Returns True
     \<and> sp_authenticate sp = Returns True
     \<and> (\<exists>p f. create_backup bp (temp_dir sys) = Returns (Some p) \<and> p \<noteq> []
              \<and> upload sp p = Returns (Some f) \<and> f \<noteq> [])"
  by (auto simp: orch_defs split: orch_splits)

lemma cleanup_old_files_called:
  "execute_backup config bp sp sys = (res, t) \<Longrightarrow> Cleanup_old_files n \<in> set t \<Longrightarrow>
     n = retention_days (google_drive config)
     \<and> validate_setup bp = Returns True \<and> bp_authenticate bp = Returns True
     \<and> sp_authenticate sp = Returns True
     \<and> (\<exists>p f b. create_backup bp (temp_dir sys) = Returns (Some p) \<and> p \<noteq> []
              \<and> upload sp p = Returns (Some f) \<and> f \<noteq> []
              \<and> configure_access sp (sharing config) = Returns b)"
  by (auto simp: orch_defs split: orch_splits)

lemma run_pair: "execute_backup config bp sp sys =
   (fst (execute_backup config bp sp sys), snd (execute_backup config bp sp sys))"
  by simp


lemma cleanup_local_files_called:
  "execute_backup config bp sp sys = (res, t) \<Longrightarrow> Cleanup_local_files \<in> set t"
  by (auto simp: orch_defs split: orch_splits)

text \<open>No \<open>Exception\<close> leaves \<open>execute_backup\<close>; only the other \<open>BaseException\<close>s do.\<close>

lemma no_exception_escapes:
  "execute_backup config bp sp sys = (res, t) \<Longrightarrow> res \<noteq> Inl (Exception m)"
  by (auto simp: orch_defs split: orch_splits)

subsection \<open>C1\<close>

text \<open>
  C1, as stated, fails: an \<open>Exception\<close> raised by \<open>validate_setup\<close> is caught inside
  \<open>_validate_setup\<close>, and the result carries the fixed message, not the masked message
  of the exception.
\<close>

theorem validate_setup_exception_not_masked_into_result:
  "fst (execute_backup example_config
          (ok_source\<lparr>validate_setup := Raises (Exception ''boom'')\<rparr>) ok_sink example_sys)
     = Inr (new_BackupResult\<lparr>error := Some ''Setup validation failed''\<rparr>)
   \<and> mask_sensitive_data ''boom'' \<noteq> ''Setup validation failed''"
  by (simp add: orch_defs example_defs mask_boom)

text \<open>
  C1, amended. When \<open>create_backup\<close>, \<open>upload\<close>, \<open>configure_access\<close> or
  \<open>cleanup_old_files\<close> is called and raises an \<open>Exception\<close> e, \<open>execute_backup\<close> returns
  normally with success false and error = \<open>mask_sensitive_data(str(e))\<close>. When
  \<open>validate_setup\<close> raises an \<open>Exception\<close>, it returns normally with success false and
  error "Setup validation failed"; when the source's or the sink's \<open>authenticate\<close> is
  called and raises one, with success false and error "Provider authentication failed".
\<close>

theorem exception_in_stage_gives_failed_result:
  "(validate_setup bp = Raises (Exception m) \<longrightarrow>
      (\<exists>r. fst (execute_backup config bp sp sys) = Inr r \<and> \<not> success r
           \<and> error r = Some ''Setup validation failed''))
   \<and> (Source_authenticate \<in> set (snd (execute_backup config bp sp sys))
        \<and> bp_authenticate bp = Raises (Exception m) \<longrightarrow>
      (\<exists>r. fst (execute_backup config bp sp sys) = Inr r \<and> \<not> success r
           \<and> error r = Some ''Provider authentication failed''))
   \<and> (Sink_authenticate \<in> set (snd (execute_backup config bp sp sys))
        \<and> sp_authenticate sp = Raises (Exception m) \<longrightarrow>
      (\<exists>r. fst (execute_backup config bp sp sys) = Inr r \<and> \<not> success r
           \<and> error r = Some ''Provider authentication failed''))
   \<and> (Create_backup d \<in> set (snd (execute_backup config bp sp sys))
        \<and> create_backup bp d = Raises (Exception m) \<longrightarrow>
      (\<exists>r. fst (execute_backup config bp sp sys) = Inr r \<and> \<not> success r
           \<and> error r = Some (mask_sensitive_data m)))
   \<and> (Upload p \<in> set (snd (execute_backup config bp sp sys))
        \<and> upload sp p = Raises (Exception m) \<longrightarrow>
      (\<exists>r. fst (execute_backup config bp sp sys) = Inr r \<and> \<not> success r
           \<and> error r = Some (mask_sensitive_data m)))
   \<and> (Configure_access sh \<in> set (snd (execute_backup config bp sp sys))
        \<and> configure_access sp sh = Raises (Exception m) \<longrightarrow>
      (\<exists>r. fst (execute_backup config bp sp sys) = Inr r \<and> \<not> success r
           \<and> error r = Some (mask_sensitive_data m)))
   \<and> (Cleanup_old_files n \<in> set (snd (execute_backup config bp sp sys))
        \<and> cleanup_old_files sp n = Raises (Exception m) \<longrightarrow>
      (\<exists>r. fst (execute_backup config bp sp sys) = Inr r \<and> \<not> success r
           \<and> error r = Some (mask_sensitive_data m)))"
proof (intro conjI impI; (elim conjE)?)
  assume "validate_setup bp = Raises (Exception m)"
  then show "\<exists>r. fst (execute_backup config bp sp sys) = Inr r \<and> \<not> success r
               \<and> error r = Some ''Setup validation failed''"
    by (simp add: orch_defs)
next
  assume c: "Source_authenticate \<in> set (snd (execute_backup config bp sp sys))"
     and r: "bp_authenticate bp = Raises (Exception m)"
  from source_authenticate_called[OF run_pair c] r
  show "\<exists>r. fst (execute_backup config bp sp sys) = Inr r \<and> \<not> success r
               \<and> error r = Some ''Provider authentication failed''"
    by (simp add: orch_defs)
next
  assume c: "Sink_authenticate \<in> set (snd (execute_backup config bp sp sys))"
     and r: "sp_authenticate sp = Raises (Exception m)"
  from sink_authenticate_called[OF run_pair c] r
  show "\<exists>r. fst (execute_backup config bp sp sys) = Inr r \<and> \<not> success r
               \<and> error r = Some ''Provider authentication failed''"
    by (simp add: orch_defs)
next
  assume c: "Create_backup d \<in> set (snd (execute_backup config bp sp sys))"
     and r: "create_backup bp d = Raises (Exception m)"
  from create_backup_called[OF run_pair c] r
  show "\<exists>r. fst (execute_backup config bp sp sys) = Inr r \<and> \<not> success r
               \<and> error r = Some (mask_sensitive_data m)"
    by (simp add: orch_defs)
next
  assume c: "Upload p \<in> set (snd (execute_backup config bp sp sys))"
     and r: "upload sp p = Raises (Exception m)"
  from upload_called[OF run_pair c] r
  show "\<exists>r. fst (execute_backup config bp sp sys) = Inr r \<and> \<not> success r
               \<and> error r = Some (mask_sensitive_data m)"
    by (simp add: orch_defs)
next
  assume c: "Configure_access sh \<in> set (snd (execute_backup config bp sp sys))"
     and r: "configure_access sp sh = Raises (Exception m)"
  from configure_access_called[OF run_pair c] obtain p f where
    "sh = sharing config" "validate_setup bp = Returns True" "bp_authenticate bp = Returns True"
    "sp_authenticate sp = Returns True" "create_backup bp (temp_dir sys) = Returns (Some p)"
    "p \<noteq> []" "upload sp p = Returns (Some f)" "f \<noteq> []"
    by blast
  with r show "\<exists>r. fst (execute_backup config bp sp sys) = Inr r \<and> \<not> success r
               \<and> error r = Some (mask_sensitive_data m)"
    by (simp add: orch_defs)
next
  assume c: "Cleanup_old_files n \<in> set (snd (execute_backup config bp sp sys))"
     and r: "cleanup_old_files sp n = Raises (Exception m)"
  from cleanup_old_files_called[OF run_pair c] obtain p f b where
    "n = retention_days (google_drive config)" "validate_setup bp = Returns True"
    "bp_authenticate bp = Returns True" "sp_authenticate sp = Returns True"
    "create_backup bp (temp_dir sys) = Returns (Some p)" "p \<noteq> []"
    "upload sp p = Returns (Some f)" "f \<noteq> []"
    "configure_access sp (sharing config) = Returns b"
    by blast
  with r show "\<exists>r. fst (execute_backup config bp sp sys) = Inr r \<and> \<not> success r
               \<and> error r = Some (mask_sensitive_data m)"
    by (simp add: orch_defs)
qed

theorem exception_in_stage_gives_failed_result_witness:
  "(validate_setup (ok_source\<lparr>validate_setup := Raises (Exception ''boom'')\<rparr>)
      = Raises (Exception ''boom'')
    \<and> (\<exists>r. fst (execute_backup example_config
                  (ok_source\<lparr>validate_setup := Raises (Exception ''boom'')\<rparr>)
                  ok_sink example_sys) = Inr r
            \<and> \<not> success r \<and> error r = Some ''Setup validation failed''))
   \<and> (Source_authenticate \<in> set (snd (execute_backup example_config
                  (ok_source\<lparr>bp_authenticate := Raises (Exception ''boom'')\<rparr>)
                  ok_sink example_sys))
    \<and> (\<exists>r. fst (execute_backup example_config
                  (ok_source\<lparr>bp_authenticate := Raises (Exception ''boom'')\<rparr>)
                  ok_sink example_sys) = Inr r
            \<and> \<not> success r \<and> error r = Some ''Provider authentication failed''))
   \<and> (Sink_authenticate \<in> set (snd (execute_backup example_config ok_source
                  (ok_sink\<lparr>sp_authenticate := Raises (Exception ''boom'')\<rparr>) example_sys))
    \<and> (\<exists>r. fst (execute_backup example_config ok_source
                  (ok_sink\<lparr>sp_authenticate := Raises (Exception ''boom'')\<rparr>) example_sys)
              = Inr r
            \<and> \<not> success r \<and> error r = Some ''Provider authentication failed''))
   \<and> (Create_backup ''/tmp/wp_backup_x1'' \<in> set (snd (execute_backup example_config
                  (ok_source\<lparr>create_backup := (\<lambda>d. Raises (Exception ''boom''))\<rparr>)
                  ok_sink example_sys))
    \<and> (\<exists>r. fst (execute_backup example_config
                  (ok_source\<lparr>create_backup := (\<lambda>d. Raises (Exception ''boom''))\<rparr>)
                  ok_sink example_sys) = Inr r
            \<and> \<not> success r \<and> error r = Some (mask_sensitive_data ''boom'')))
   \<and> (Upload ''/tmp/wp_backup_x1/site.org_backup.tar.gz''
          \<in> set (snd (execute_backup example_config ok_source
                  (ok_sink\<lparr>upload := (\<lambda>p. Raises (Exception ''boom''))\<rparr>) example_sys))
    \<and> (\<exists>r. fst (execute_backup example_config ok_source
                  (ok_sink\<lparr>upload := (\<lambda>p. Raises (Exception ''boom''))\<rparr>) example_sys)
              = Inr r
            \<and> \<not> success r \<and> error r = Some (mask_sensitive_data ''boom'')))
   \<and> (Configure_access (sharing example_config)
          \<in> set (snd (execute_backup example_config ok_source
                  (ok_sink\<lparr>configure_access := (\<lambda>s. Raises (Exception ''boom''))\<rparr>)
                  example_sys))
    \<and> (\<exists>r. fst (execute_backup example_config ok_source
                  (ok_sink\<lparr>configure_access := (\<lambda>s. Raises (Exception ''boom''))\<rparr>)
                  example_sys) = Inr r
            \<and> \<not> success r \<and> error r = Some (mask_sensitive_data ''boom'')))
   \<and> (Cleanup_old_files 7
          \<in> set (snd (execute_backup example_config ok_source
                  (ok_sink\<lparr>cleanup_old_files := (\<lambda>n. Raises (Exception ''boom''))\<rparr>)
                  example_sys))
    \<and> (\<exists>r. fst (execute_backup example_config ok_source
                  (ok_sink\<lparr>cleanup_old_files := (\<lambda>n. Raises (Exception ''boom''))\<rparr>)
                  example_sys) = Inr r
            \<and> \<not> success r \<and> error r = Some (mask_sensitive_data ''boom'')))"
proof (intro conjI)
  note T = exception_in_stage_gives_failed_result
             [where config = example_config and sys = example_sys and m = "''boom''"]
  let ?b1 = "ok_source\<lparr>validate_setup := Raises (Exception ''boom'')\<rparr>"
  show h1: "validate_setup ?b1 = Raises (Exception ''boom'')" by simp
  show "\<exists>r. fst (execute_backup example_config ?b1 ok_sink example_sys) = Inr r
            \<and> \<not> success r \<and> error r = Some ''Setup validation failed''"
    using T [where bp = ?b1 and sp = ok_sink] h1 by blast
  let ?b2 = "ok_source\<lparr>bp_authenticate := Raises (Exception ''boom'')\<rparr>"
  show h2: "Source_authenticate \<in> set (snd (execute_backup example_config ?b2 ok_sink example_sys))"
    by (simp add: orch_defs example_defs)
  have "bp_authenticate ?b2 = Raises (Exception ''boom'')" by simp
  with h2 show "\<exists>r. fst (execute_backup example_config ?b2 ok_sink example_sys) = Inr r
            \<and> \<not> success r \<and> error r = Some ''Provider authentication failed''"
    using T [where bp = ?b2 and sp = ok_sink] by blast
  let ?s3 = "ok_sink\<lparr>sp_authenticate := Raises (Exception ''boom'')\<rparr>"
  show h3: "Sink_authenticate \<in> set (snd (execute_backup example_config ok_source ?s3 example_sys))"
    by (simp add: orch_defs example_defs)
  have "sp_authenticate ?s3 = Raises (Exception ''boom'')" by simp
  with h3 show "\<exists>r. fst (execute_backup example_config ok_source ?s3 example_sys) = Inr r
            \<and> \<not> success r \<and> error r = Some ''Provider authentication failed''"
    using T [where bp = ok_source and sp = ?s3] by blast
  let ?b4 = "ok_source\<lparr>create_backup := (\<lambda>d. Raises (Exception ''boom''))\<rparr>"
  show h4: "Create_backup ''/tmp/wp_backup_x1''
              \<in> set (snd (execute_backup example_config ?b4 ok_sink example_sys))"
    by (simp add: orch_defs example_defs)
  have "create_backup ?b4 ''/tmp/wp_backup_x1'' = Raises (Exception ''boom'')" by simp
  with h4 show "\<exists>r. fst (execute_backup example_config ?b4 ok_sink example_sys) = Inr r
            \<and> \<not> success r \<and> error r = Some (mask_sensitive_data ''boom'')"
    using T [where bp = ?b4 and sp = ok_sink and d = "''/tmp/wp_backup_x1''"] by blast
  let ?s5 = "ok_sink\<lparr>upload := (\<lambda>p. Raises (Exception ''boom''))\<rparr>"
  show h5: "Upload ''/tmp/wp_backup_x1/site.org_backup.tar.gz''
              \<in> set (snd (execute_backup example_config ok_source ?s5 example_sys))"
    by (simp add: orch_defs example_defs)
  have "upload ?s5 ''/tmp/wp_backup_x1/site.org_backup.tar.gz'' = Raises (Exception ''boom'')"
    by simp
  with h5 show "\<exists>r. fst (execute_backup example_config ok_source ?s5 example_sys) = Inr r
            \<and> \<not> success r \<and> error r = Some (mask_sensitive_data ''boom'')"
    using T [where bp = ok_source and sp = ?s5
               and p = "''/tmp/wp_backup_x1/site.org_backup.tar.gz''"] by blast
  let ?s6 = "ok_sink\<lparr>configure_access := (\<lambda>s. Raises (Exception ''boom''))\<rparr>"
  show h6: "Configure_access (sharing example_config)
              \<in> set (snd (execute_backup example_config ok_source ?s6 example_sys))"
    by (simp add: orch_defs example_defs)
  have "configure_access ?s6 (sharing example_config) = Raises (Exception ''boom'')" by simp
  with h6 show "\<exists>r. fst (execute_backup example_config ok_source ?s6 example_sys) = Inr r
            \<and> \<not> success r \<and> error r = Some (mask_sensitive_data ''boom'')"
    using T [where bp = ok_source and sp = ?s6 and sh = "sharing example_config"] by blast
  let ?s7 = "ok_sink\<lparr>cleanup_old_files := (\<lambda>n. Raises (Exception ''boom''))\<rparr>"
  show h7: "Cleanup_old_files 7
              \<in> set (snd (execute_backup example_config ok_source ?s7 example_sys))"
    by (simp add: orch_defs example_defs)
  have "cleanup_old_files ?s7 7 = Raises (Exception ''boom'')" by simp
  with h7 show "\<exists>r. fst (execute_backup example_config ok_source ?s7 example_sys) = Inr r
            \<and> \<not> success r \<and> error r = Some (mask_sensitive_data ''boom'')"
    using T [where bp = ok_source and sp = ?s7 and n = 7] by blast
qed

subsection \<open>C2\<close>

text \<open>
  C2, as stated, fails: with everything before it successful, an \<open>Exception\<close> raised by
  \<open>configure_access\<close> reaches the \<open>except\<close> of \<open>execute_backup\<close>, and the run fails.
\<close>

theorem configure_access_exception_fails_run:
  "fst (execute_backup example_config ok_source
          (ok_sink\<lparr>configure_access := (\<lambda>s. Raises (Exception ''boom''))\<rparr>) example_sys)
     = Inr (new_BackupResult\<lparr>error := Some ''boom''\<rparr>)
   \<and> success (new_BackupResult\<lparr>error := Some ''boom''\<rparr> :: real BackupResult) = False"
  by (simp add: orch_defs example_defs mask_boom)

text \<open>
  C2, amended. In every run in which \<open>configure_access\<close> is called (validation, both
  authentications, \<open>create_backup\<close> and \<open>upload\<close> succeeded): if it raises an \<open>Exception\<close> e,
  \<open>execute_backup\<close> returns a result with success = false and error =
  \<open>mask_sensitive_data(str(e))\<close>; if it reports the sharing failure by returning false and
  \<open>cleanup_old_files\<close> then returns, the result has success = true.
\<close>

theorem sharing_failure_by_return_value_does_not_fail_run:
  assumes "Configure_access sh \<in> set (snd (execute_backup config bp sp sys))"
  shows "(configure_access sp sh = Raises (Exception m) \<longrightarrow>
            (\<exists>r. fst (execute_backup config bp sp sys) = Inr r \<and> \<not> success r
                 \<and> error r = Some (mask_sensitive_data m)))
         \<and> (configure_access sp sh = Returns False
              \<and> cleanup_old_files sp (retention_days (google_drive config)) = Returns n \<longrightarrow>
            (\<exists>r. fst (execute_backup config bp sp sys) = Inr r \<and> success r))"
proof -
  from configure_access_called[OF run_pair assms] obtain p f where
    "sh = sharing config" "validate_setup bp = Returns True" "bp_authenticate bp = Returns True"
    "sp_authenticate sp = Returns True" "create_backup bp (temp_dir sys) = Returns (Some p)"
    "p \<noteq> []" "upload sp p = Returns (Some f)" "f \<noteq> []"
    by blast
  then show ?thesis by (simp add: orch_defs split: sum.splits)
qed

theorem sharing_failure_by_return_value_does_not_fail_run_witness:
  "Configure_access (sharing example_config)
     \<in> set (snd (execute_backup example_config ok_source
                   (ok_sink\<lparr>configure_access := (\<lambda>s. Returns False)\<rparr>) example_sys))
   \<and> configure_access (ok_sink\<lparr>configure_access := (\<lambda>s. Returns False)\<rparr>)
        (sharing example_config) = Returns False
   \<and> cleanup_old_files (ok_sink\<lparr>configure_access := (\<lambda>s. Returns False)\<rparr>)
        (retention_days (google_drive example_config)) = Returns 3
   \<and> (\<exists>r. fst (execute_backup example_config ok_source
                  (ok_sink\<lparr>configure_access := (\<lambda>s. Returns False)\<rparr>) example_sys) = Inr r
          \<and> success r)
   \<and> Configure_access (sharing example_config)
     \<in> set (snd (execute_backup example_config ok_source
                   (ok_sink\<lparr>configure_access := (\<lambda>s. Raises (Exception ''boom''))\<rparr>)
                   example_sys))
   \<and> (\<exists>r. fst (execute_backup example_config ok_source
                  (ok_sink\<lparr>configure_access := (\<lambda>s. Raises (Exception ''boom''))\<rparr>)
                  example_sys) = Inr r
          \<and> \<not> success r \<and> error r = Some (mask_sensitive_data ''boom''))"
proof -
  let ?s1 = "ok_sink\<lparr>configure_access := (\<lambda>s. Returns False)\<rparr>"
  let ?s2 = "ok_sink\<lparr>configure_access := (\<lambda>s. Raises (Exception ''boom''))\<rparr>"
  have h1: "Configure_access (sharing example_config)
              \<in> set (snd (execute_backup example_config ok_source ?s1 example_sys))"
    by (simp add: orch_defs example_defs)
  have h2: "Configure_access (sharing example_config)
              \<in> set (snd (execute_backup example_config ok_source ?s2 example_sys))"
    by (simp add: orch_defs example_defs)
  have a: "configure_access ?s1 (sharing example_config) = Returns False" by simp
  have b: "cleanup_old_files ?s1 (retention_days (google_drive example_config)) = Returns 3"
    by (simp add: example_defs)
  have c: "configure_access ?s2 (sharing example_config) = Raises (Exception ''boom'')" by simp
  from sharing_failure_by_return_value_does_not_fail_run [OF h1, where n = 3 and m = "''boom''"]
       sharing_failure_by_return_value_does_not_fail_run [OF h2, where n = 3 and m = "''boom''"]
       h1 h2 a b c
  show ?thesis by blast
qed

subsection \<open>C3\<close>

text \<open>
  C3. For every run in which \<open>validate_setup\<close> returns true, both providers'
  \<open>authenticate\<close> return true, \<open>create_backup\<close> returns a path, \<open>upload\<close> returns
  "file123" and \<open>cleanup_old_files(7)\<close> is called and returns 3, \<open>execute_backup\<close> returns a
  result with success = true, backup_id = "file123" and files_cleaned = 3.
\<close>

theorem successful_run_result:
  assumes "validate_setup bp = Returns True"
      and "bp_authenticate bp = Returns True"
      and "sp_authenticate sp = Returns True"
      and "create_backup bp (temp_dir sys) = Returns (Some path)"
      and "upload sp path = Returns (Some ''file123'')"
      and "Cleanup_old_files 7 \<in> set (snd (execute_backup config bp sp sys))"
      and "cleanup_old_files sp 7 = Returns 3"
  shows "\<exists>r. fst (execute_backup config bp sp sys) = Inr r \<and> success r
            \<and> backup_id r = Some ''file123'' \<and> files_cleaned r = 3"
proof -
  from cleanup_old_files_called[OF run_pair assms(6)] obtain p f b where
    "7 = retention_days (google_drive config)"
    "create_backup bp (temp_dir sys) = Returns (Some p)" "p \<noteq> []"
    "upload sp p = Returns (Some f)" "f \<noteq> []"
    "configure_access sp (sharing config) = Returns b"
    by blast
  with assms(1-5,7) show ?thesis
    by (auto simp: orch_defs split: sum.splits)
qed

theorem successful_run_result_witness:
  "validate_setup ok_source = Returns True
   \<and> bp_authenticate ok_source = Returns True
   \<and> sp_authenticate ok_sink = Returns True
   \<and> create_backup ok_source (temp_dir example_sys)
        = Returns (Some ''/tmp/wp_backup_x1/site.org_backup.tar.gz'')
   \<and> upload ok_sink ''/tmp/wp_backup_x1/site.org_backup.tar.gz'' = Returns (Some ''file123'')
   \<and> Cleanup_old_files 7 \<in> set (snd (execute_backup example_config ok_source ok_sink example_sys))
   \<and> cleanup_old_files ok_sink 7 = Returns 3
   \<and> (\<exists>r. fst (execute_backup example_config ok_source ok_sink example_sys) = Inr r
          \<and> success r \<and> backup_id r = Some ''file123'' \<and> files_cleaned r = 3)"
proof -
  have a: "validate_setup ok_source = Returns True" by (simp add: example_defs)
  have b: "bp_authenticate ok_source = Returns True" by (simp add: example_defs)
  have c: "sp_authenticate ok_sink = Returns True" by (simp add: example_defs)
  have d: "create_backup ok_source (temp_dir example_sys)
             = Returns (Some ''/tmp/wp_backup_x1/site.org_backup.tar.gz'')"
    by (simp add: example_defs)
  have e: "upload ok_sink ''/tmp/wp_backup_x1/site.org_backup.tar.gz''
             = Returns (Some ''file123'')"
    by (simp add: example_defs)
  have f: "Cleanup_old_files 7
             \<in> set (snd (execute_backup example_config ok_source ok_sink example_sys))"
    by (simp add: orch_defs example_defs)
  have g: "cleanup_old_files ok_sink 7 = Returns 3" by (simp add: example_defs)
  from successful_run_result [OF a b c d e f g] a b c d e f g show ?thesis by blast
qed

subsection \<open>C4\<close>

text \<open>
  C4, as stated, fails: a run that ends in failure returns a result whose duration is
  not populated. Here the source's \<open>authenticate\<close> returns false.
\<close>

theorem failed_run_has_no_duration:
  "fst (execute_backup example_config (ok_source\<lparr>bp_authenticate := Returns False\<rparr>)
          ok_sink example_sys)
     = Inr (new_BackupResult\<lparr>error := Some ''Provider authentication failed''\<rparr>)
   \<and> success (new_BackupResult\<lparr>error := Some ''Provider authentication failed''\<rparr>
                :: real BackupResult) = False
   \<and> duration (new_BackupResult\<lparr>error := Some ''Provider authentication failed''\<rparr>
                :: real BackupResult) = None"
  by (simp add: orch_defs example_defs)

text \<open>
  C4, amended. For every run of \<open>execute_backup\<close> that returns a result: if the run
  reached DONE (success = true), the duration field holds the clock reading taken in
  step 7, after \<open>cleanup_old_files\<close> returned, minus the reading taken on entry; if the run
  ended in failure (success = false), the duration field is not populated.
\<close>

theorem duration_populated_on_success_only:
  assumes "fst (execute_backup config bp sp sys) = Inr r"
  shows "duration r = (if success r then Some (time_at_done sys - time_at_start sys) else None)"
  using assms by (auto simp: orch_defs split: orch_splits)

theorem duration_populated_on_success_only_witness:
  "fst (execute_backup example_config ok_source ok_sink example_sys)
     = Inr \<lparr>success = True, backup_id = Some ''file123'', error = None, files_cleaned = 3,
            duration = Some 42, backup_size = Some ''12.5MB''\<rparr>
   \<and> duration \<lparr>success = True, backup_id = Some ''file123'', error = None, files_cleaned = 3,
               duration = Some (42::real), backup_size = Some ''12.5MB''\<rparr>
       = Some (time_at_done example_sys - time_at_start example_sys)"
proof -
  have h: "fst (execute_backup example_config ok_source ok_sink example_sys)
     = Inr \<lparr>success = True, backup_id = Some ''file123'', error = None, files_cleaned = 3,
            duration = Some 42, backup_size = Some ''12.5MB''\<rparr>"
    by (simp add: orch_defs example_defs)
  from duration_populated_on_success_only [OF h] h show ?thesis by simp
qed

subsection \<open>C5\<close>

text \<open>
  C5. For every run in which the source provider's \<open>authenticate()\<close> is called and
  returns false, \<open>execute_backup\<close> returns a result with success = false and error =
  "Provider authentication failed", and the sink provider's \<open>authenticate()\<close> is never
  invoked.
\<close>

theorem source_authentication_false:
  assumes "Source_authenticate \<in> set (snd (execute_backup config bp sp sys))"
      and "bp_authenticate bp = Returns False"
  shows "(\<exists>r. fst (execute_backup config bp sp sys) = Inr r \<and> \<not> success r
             \<and> error r = Some ''Provider authentication failed'')
         \<and> Sink_authenticate \<notin> set (snd (execute_backup config bp sp sys))"
  using source_authenticate_called[OF run_pair assms(1)] assms(2)
  by (simp add: orch_defs)

theorem source_authentication_false_witness:
  "Source_authenticate
     \<in> set (snd (execute_backup example_config (ok_source\<lparr>bp_authenticate := Returns False\<rparr>)
                   ok_sink example_sys))
   \<and> bp_authenticate (ok_source\<lparr>bp_authenticate := Returns False\<rparr>) = Returns False
   \<and> (\<exists>r. fst (execute_backup example_config (ok_source\<lparr>bp_authenticate := Returns False\<rparr>)
                  ok_sink example_sys) = Inr r
          \<and> \<not> success r \<and> error r = Some ''Provider authentication failed'')
   \<and> Sink_authenticate
     \<notin> set (snd (execute_backup example_config (ok_source\<lparr>bp_authenticate := Returns False\<rparr>)
                   ok_sink example_sys))"
proof -
  let ?b = "ok_source\<lparr>bp_authenticate := Returns False\<rparr>"
  have a: "Source_authenticate \<in> set (snd (execute_backup example_config ?b ok_sink example_sys))"
    by (simp add: orch_defs example_defs)
  have b: "bp_authenticate ?b = Returns False" by simp
  from source_authentication_false [OF a b] a b show ?thesis by blast
qed

subsection \<open>C6\<close>

text \<open>
  C6. For every run in which the source provider's \<open>create_backup\<close> is called and returns
  \<open>None\<close>, \<open>execute_backup\<close> returns a result with success = false and backup_id = \<open>None\<close>,
  and the sink provider's \<open>upload\<close> is never called.
\<close>

theorem create_backup_none:
  assumes "Create_backup d \<in> set (snd (execute_backup config bp sp sys))"
      and "create_backup bp d = Returns None"
  shows "(\<exists>r. fst (execute_backup config bp sp sys) = Inr r \<and> \<not> success r
             \<and> backup_id r = None)
         \<and> (\<forall>p. Upload p \<notin> set (snd (execute_backup config bp sp sys)))"
  using create_backup_called[OF run_pair assms(1)] assms(2)
  by (simp add: orch_defs)

theorem create_backup_none_witness:
  "Create_backup ''/tmp/wp_backup_x1''
     \<in> set (snd (execute_backup example_config
                   (ok_source\<lparr>create_backup := (\<lambda>d. Returns None)\<rparr>) ok_sink example_sys))
   \<and> create_backup (ok_source\<lparr>create_backup := (\<lambda>d. Returns None)\<rparr>) ''/tmp/wp_backup_x1''
       = Returns None
   \<and> (\<exists>r. fst (execute_backup example_config
                  (ok_source\<lparr>create_backup := (\<lambda>d. Returns None)\<rparr>) ok_sink example_sys)
            = Inr r
          \<and> \<not> success r \<and> backup_id r = None)
   \<and> Upload ''/tmp/wp_backup_x1/site.org_backup.tar.gz''
     \<notin> set (snd (execute_backup example_config
                   (ok_source\<lparr>create_backup := (\<lambda>d. Returns None)\<rparr>) ok_sink example_sys))"
proof -
  let ?b = "ok_source\<lparr>create_backup := (\<lambda>d. Returns None)\<rparr>"
  have a: "Create_backup ''/tmp/wp_backup_x1''
             \<in> set (snd (execute_backup example_config ?b ok_sink example_sys))"
    by (simp add: orch_defs example_defs)
  have b: "create_backup ?b ''/tmp/wp_backup_x1'' = Returns None" by simp
  from create_backup_none [OF a b] a b show ?thesis by blast
qed

section \<open>Facts about mask_sensitive_data\<close>

lemma sub_from_no_match:
  "\<not> search_from ic r i s \<Longrightarrow> sub_from ic r tpl i s = s"
proof (induction s arbitrary: i)
  case Nil
  then show ?case by (subst sub_from.simps) simp
next
  case (Cons c cs)
  from Cons.prems have m: "matches ic r (i, c # cs, Map.empty) = []"
    and rest: "\<not> search_from ic r (Suc i) cs"
    by simp_all
  from Cons.IH [OF rest] m show ?case by (subst sub_from.simps) simp
qed

lemma re_sub_no_match: "\<not> re_search ic r s \<Longrightarrow> re_sub ic r tpl s = s"
  by (simp add: re_sub_def re_search_def sub_from_no_match)

lemma mask_unchanged_where_nothing_matches:
  assumes "\<not> re_search True pat_password text" and "\<not> re_search True pat_api_key text"
      and "\<not> re_search True pat_url text" and "\<not> re_search True pat_email text"
      and "\<not> re_search True pat_path text"
  shows "mask_sensitive_data text = text"
  using assms by (simp add: mask_sensitive_data_def patterns_def re_sub_no_match)

text \<open>A match leaves a suffix of the text it started on.\<close>

lemma matches_suffix:
  "(j, s', g') \<in> set (matches ic r (i, s, g)) \<Longrightarrow> \<exists>p. s = p @ s' \<and> j = i + length p"
proof (induction ic r "(i, s, g)" arbitrary: i s g j s' g' rule: matches.induct)
  case (1 ic d i s g) then show ?case by (auto split: list.splits if_splits)
next
  case (2 ic xs i s g) then show ?case by (auto split: list.splits if_splits)
next
  case (3 ic xs i s g) then show ?case by (auto split: list.splits if_splits)
next
  case (4 ic) then show ?case by auto
next
  case (5 ic a b) 
  from 5(3) obtain k t h where m1: "(k, t, h) \<in> set (matches ic a (i, s, g))" and m2: "(j, s', g') \<in> set (matches ic b (k, t, h))" by auto
  from 5(1)[OF m1] obtain p where p: "s = p @ t" "k = i + length p" by blast
  from 5(2)[OF m1 m2] obtain q where q: "t = q @ s'" "j = k + length q" by blast
  from p q have "s = (p @ q) @ s' \<and> j = i + length (p @ q)" by simp
  then show ?case by blast
next
  case (6 ic a b) then show ?case by auto
next
  case (7 ic k r i s g) then show ?case by auto
next
  case (8 ic) then show ?case by (auto split: if_splits)
next
  case (9 ic) then show ?case by (auto split: if_splits)
next
  case (10 ic m n r)
  from 10(3) obtain k t h where m1: "(k, t, h) \<in> set (matches ic r (i, s, g))" and m2: "(j, s', g') \<in> set (matches ic (Rep m (dec n) r) (k, t, h))" by auto
  from 10(1)[OF m1] obtain p where p: "s = p @ t" "k = i + length p" by blast
  from 10(2)[OF m1 m2] obtain q where q: "t = q @ s'" "j = k + length q" by blast
  from p q have "s = (p @ q) @ s' \<and> j = i + length (p @ q)" by simp
  then show ?case by blast
next
  case (11 ic n r i s g)
  show ?case
  proof (cases "n = Some 0")
    case True with 11(3) show ?thesis by simp
  next
    case False
    with 11(3) consider "(j, s', g') = (i, s, g)" | k t h where "(k, t, h) \<in> set (matches ic r (i, s, g))" "length t < length s" "(j, s', g') \<in> set (matches ic (Rep 0 (dec n) r) (k, t, h))" by auto
    then show ?thesis
    proof cases
      case 1 then show ?thesis by simp
    next
      case 2
      from 11(1)[OF False 2(1)] obtain p where p: "s = p @ t" "k = i + length p" by blast
      have "(k, t, h) \<in> set (filter (\<lambda>(j, s', g'). length s' < length s) (matches ic r (i, s, g)))" using 2 by simp
      from 11(2)[OF False this 2(3)] obtain q where q: "t = q @ s'" "j = k + length q" by blast
      from p q have "s = (p @ q) @ s' \<and> j = i + length (p @ q)" by simp
      then show ?thesis by blast
    qed
  qed
qed

text \<open>A text without the characters a pattern needs has no match.\<close>

lemma needs_no_match:
  "needs P ic r \<Longrightarrow> \<forall>c \<in> set s. \<not> P c \<Longrightarrow> matches ic r (i, s, g) = []"
proof (induction ic r "(i, s, g)" arbitrary: i s g rule: matches.induct)
  case (1 ic d i s g) then show ?case by (auto split: list.splits)
next
  case (2 ic xs i s g) then show ?case by (auto split: list.splits)
next
  case (3 ic xs i s g) then show ?case by (auto split: list.splits)
next
  case (4 ic) then show ?case by simp
next
  case (5 ic a b)
  show ?case
  proof (cases "needs P ic a")
    case True
    from 5(1)[OF True 5(4)] show ?thesis by simp
  next
    case False
    with 5(3) have nb: "needs P ic b" by simp
    have "matches ic b st' = []" if "st' \<in> set (matches ic a (i, s, g))" for st'
    proof -
      obtain k t h where st': "st' = (k, t, h)" by (cases st') auto
      from matches_suffix that[unfolded st'] obtain p where "s = p @ t" by blast
      with 5(4) have "\<forall>c \<in> set t. \<not> P c" by auto
      from 5(2)[OF that[unfolded st'] nb this] st' show ?thesis by simp
    qed
    then show ?thesis by simp
  qed
next
  case (6 ic a b) then show ?case by simp
next
  case (7 ic k r i s g) then show ?case by simp
next
  case (8 ic) then show ?case by simp
next
  case (9 ic) then show ?case by simp
next
  case (10 ic m n r)
  from 10(3) have "needs P ic r" by simp
  from 10(1)[OF this 10(4)] show ?case by simp
next
  case (11 ic n r) then show ?case by simp
qed

lemma needs_no_search:
  "needs P ic r \<Longrightarrow> \<forall>c \<in> set s. \<not> P c \<Longrightarrow> \<not> search_from ic r i s"
  by (induction s arbitrary: i) (simp_all add: needs_no_match)

text \<open>Ignoring case, \<open>@\<close> and \<open>/\<close> match themselves only.\<close>

lemma at_eq: "\<forall>c. lit_eq True (CHR ''@'') c \<longrightarrow> c = CHR ''@''"
  by code_simp
lemma slash_eq: "\<forall>c. lit_eq True (CHR ''/'') c \<longrightarrow> c = CHR ''/''"
  by code_simp

lemma needs_password: "needs (\<lambda>c. c = CHR '':'' \<or> c = CHR ''='') True pat_password"
  by (simp add: pat_password_def seqs_def assign_tail_def)
lemma needs_api_key: "needs (\<lambda>c. c = CHR '':'' \<or> c = CHR ''='') True pat_api_key"
  by (simp add: pat_api_key_def seqs_def assign_tail_def)
lemma needs_url: "needs (\<lambda>c. c = CHR ''@'') True pat_url"
  using at_eq by (simp add: pat_url_def seqs_def)
lemma needs_email: "needs (\<lambda>c. c = CHR ''@'') True pat_email"
  using at_eq by (simp add: pat_email_def seqs_def)
lemma needs_path: "needs (\<lambda>c. c = CHR ''/'') True pat_path"
  using slash_eq by (simp add: pat_path_def seqs_def)

lemma no_pattern_matches_without_trigger_characters:
  assumes "\<forall>c \<in> set text. c \<noteq> CHR '':'' \<and> c \<noteq> CHR ''='' \<and> c \<noteq> CHR ''@'' \<and> c \<noteq> CHR ''/''"
  shows "\<not> re_search True pat_password text" "\<not> re_search True pat_api_key text"
    "\<not> re_search True pat_url text" "\<not> re_search True pat_email text"
    "\<not> re_search True pat_path text"
  using assms needs_no_search[OF needs_password, of "text" 0] needs_no_search[OF needs_api_key, of "text" 0]
    needs_no_search[OF needs_url, of "text" 0] needs_no_search[OF needs_email, of "text" 0]
    needs_no_search[OF needs_path, of "text" 0]
  by (auto simp: re_search_def)

lemma mask_unchanged_without_trigger_characters:
  assumes "\<forall>c \<in> set text. c \<noteq> CHR '':'' \<and> c \<noteq> CHR ''='' \<and> c \<noteq> CHR ''@'' \<and> c \<noteq> CHR ''/''"
  shows "mask_sensitive_data text = text"
  using no_pattern_matches_without_trigger_characters [OF assms]
  by (rule mask_unchanged_where_nothing_matches)

text \<open>
  One \<open>@\<close> is enough for a second application to change the text again: the URL pattern
  takes away the blank that ended the value of the password pattern.
\<close>

lemma mask_twice_differs_with_one_at_sign:
  "mask_sensitive_data ''http://password:password @'' = ''http://password:***@''
   \<and> mask_sensitive_data ''http://password:***@'' = ''http://password:***''"
  by code_simp

subsection \<open>C7\<close>




section \<open>Facts about get_secret\<close>

lemma scan_lines_not_empty: "scan_lines key items \<noteq> Some []"
  by (induction key items rule: scan_lines.induct) (auto simp: Let_def split: prod.splits)

lemma load_from_env_file_not_empty: "load_from_env_file w key env_file \<noteq> Some []"
  by (simp add: load_from_env_file_def scan_lines_not_empty split: option.splits)

lemma first_in_files_not_empty: "first_in_files w key fs \<noteq> Some []"
  by (induction fs) (auto split: option.splits)

lemma prompt_for_secret_not_empty: "prompt_for_secret w key m \<noteq> Inr (Some [])"
  by (auto simp: prompt_for_secret_def split: outcome.splits exn.splits if_splits)

lemma first_in_files_environ:
  "first_in_files (w\<lparr>environ := e\<rparr>) key fs = first_in_files w key fs"
  by (induction fs) (auto simp: load_from_env_file_def split: option.splits)

lemma prompt_for_secret_environ:
  "prompt_for_secret (w\<lparr>environ := e\<rparr>) key m = prompt_for_secret w key m"
  by (simp add: prompt_for_secret_def)

lemma scan_lines_append_none:
  "scan_lines key pre = None \<Longrightarrow> scan_lines key post = None
   \<Longrightarrow> scan_lines key (pre @ post) = None"
  by (induction key pre rule: scan_lines.induct)
     (auto simp: Let_def split: prod.splits if_splits)

lemma first_in_files_paths:
  "first_in_files w key env_file_paths =
     (case load_from_env_file w key ''.env.local'' of
        Some v \<Rightarrow> Some v
      | None \<Rightarrow> load_from_env_file w key ''.env'')"
  using load_from_env_file_not_empty [of w key]
  by (auto simp: env_file_paths_def split: option.splits)

subsection \<open>C10\<close>

text \<open>
  C10. In \<open>get_secret\<close> a source that yields the empty string counts as absent, and the
  next source is asked:
  \<^item> \<open>get_secret\<close> never returns the empty string;
  \<^item> with the environment variable \<open>key\<close> set to the empty string, it returns what it
    returns with the variable unset, and a value \<open>v\<close> that \<open>.env.local\<close> gives for \<open>key\<close> is
    the value returned (resolution goes on to the env files);
  \<^item> an env file in which an assignment of an empty value to \<open>key\<close>, after stripping blanks
    and quotes, comes after lines \<open>pre\<close> that give \<open>key\<close> no value (comments, lines without
    \<open>=\<close>, other keys) yields nothing for \<open>key\<close>, whatever follows that assignment;
  \<^item> with an env file that yields nothing for \<open>key\<close>, it returns what it returns without
    that file; when the variable is unset or empty and \<open>.env.local\<close> yields nothing, a value
    \<open>v'\<close> that \<open>.env\<close> gives is the value returned, and when \<open>.env\<close> yields nothing either
    the result is that of the prompt, or \<open>None\<close> without a prompt message (resolution
    goes on to the next source).
\<close>

theorem get_secret_empty_is_absent:
  "get_secret w key prompt_message \<noteq> Inr (Some [])
   \<and> (environ w key = Some [] \<longrightarrow>
        get_secret w key prompt_message
          = get_secret (w\<lparr>environ := (environ w)(key := None)\<rparr>) key prompt_message)
   \<and> (environ w key = Some [] \<and> load_from_env_file w key ''.env.local'' = Some v \<longrightarrow>
        get_secret w key prompt_message = Inr (Some v))
   \<and> (files w env_file = Some (pre @ Line l # rest)
        \<and> scan_lines key pre = None
        \<and> \<not> startswith (strip l) ''#'' \<and> CHR ''='' \<in> set (strip l)
        \<and> split_once (CHR ''='') (strip l) = (env_key, env_value)
        \<and> strip env_key = key
        \<and> strip_chars [CHR 0x27, CHR 0x22] (strip env_value) = []
      \<longrightarrow> load_from_env_file w key env_file = None)
   \<and> (env_file \<in> set env_file_paths \<and> load_from_env_file w key env_file = None \<longrightarrow>
        get_secret w key prompt_message
          = get_secret (w\<lparr>files := (files w)(env_file := None)\<rparr>) key prompt_message)
   \<and> ((environ w key = None \<or> environ w key = Some [])
        \<and> load_from_env_file w key ''.env.local'' = None
        \<and> load_from_env_file w key ''.env'' = Some v' \<longrightarrow>
        get_secret w key prompt_message = Inr (Some v'))
   \<and> ((environ w key = None \<or> environ w key = Some [])
        \<and> load_from_env_file w key ''.env.local'' = None
        \<and> load_from_env_file w key ''.env'' = None \<longrightarrow>
        get_secret w key prompt_message
          = (case prompt_message of
               None \<Rightarrow> Inr None
             | Some m \<Rightarrow> if m \<noteq> [] then prompt_for_secret w key m else Inr None))"
proof (intro conjI impI)
  show "get_secret w key prompt_message \<noteq> Inr (Some [])"
    using first_in_files_not_empty [of w key env_file_paths]
          prompt_for_secret_not_empty [of w key]
    by (auto simp: get_secret_def Let_def split: option.splits if_splits)
next
  assume "environ w key = Some []"
  then show "get_secret w key prompt_message
               = get_secret (w\<lparr>environ := (environ w)(key := None)\<rparr>) key prompt_message"
    by (simp add: get_secret_def first_in_files_environ prompt_for_secret_environ
          split: option.splits)
next
  assume "environ w key = Some [] \<and> load_from_env_file w key ''.env.local'' = Some v"
  then show "get_secret w key prompt_message = Inr (Some v)"
    by (simp add: get_secret_def first_in_files_paths)
next
  assume a: "files w env_file = Some (pre @ Line l # rest)
        \<and> scan_lines key pre = None
        \<and> \<not> startswith (strip l) ''#'' \<and> CHR ''='' \<in> set (strip l)
        \<and> split_once (CHR ''='') (strip l) = (env_key, env_value)
        \<and> strip env_key = key
        \<and> strip_chars [CHR 0x27, CHR 0x22] (strip env_value) = []"
  then have "scan_lines key (Line l # rest) = None"
    by (simp add: Let_def)
  with a have "scan_lines key (pre @ Line l # rest) = None"
    by (simp add: scan_lines_append_none)
  with a show "load_from_env_file w key env_file = None"
    by (simp add: load_from_env_file_def)
next
  assume a: "env_file \<in> set env_file_paths \<and> load_from_env_file w key env_file = None"
  define w' where "w' = w\<lparr>files := (files w)(env_file := None)\<rparr>"
  have l: "load_from_env_file w' key f = load_from_env_file w key f" for f
    using a by (simp add: load_from_env_file_def w'_def)
  have p: "prompt_for_secret w' key m = prompt_for_secret w key m" for m
    by (simp add: prompt_for_secret_def w'_def)
  have e: "environ w' = environ w"
    by (simp add: w'_def)
  have ff: "first_in_files w' key fs = first_in_files w key fs" for fs
    by (induction fs) (simp_all add: l split: option.splits)
  have "get_secret w key prompt_message = get_secret w' key prompt_message"
    by (simp add: get_secret_def p e ff Let_def split: option.splits)
  then show "get_secret w key prompt_message
               = get_secret (w\<lparr>files := (files w)(env_file := None)\<rparr>) key prompt_message"
    by (simp add: w'_def)
next
  assume "(environ w key = None \<or> environ w key = Some [])
        \<and> load_from_env_file w key ''.env.local'' = None
        \<and> load_from_env_file w key ''.env'' = Some v'"
  then show "get_secret w key prompt_message = Inr (Some v')"
    by (auto simp: get_secret_def first_in_files_paths)
next
  assume "(environ w key = None \<or> environ w key = Some [])
        \<and> load_from_env_file w key ''.env.local'' = None
        \<and> load_from_env_file w key ''.env'' = None"
  then show "get_secret w key prompt_message
          = (case prompt_message of
               None \<Rightarrow> Inr None
             | Some m \<Rightarrow> if m \<noteq> [] then prompt_for_secret w key m else Inr None)"
    by (auto simp: get_secret_def first_in_files_paths)
qed

theorem get_secret_empty_is_absent_witness:
  "get_secret example_world ''WP_DOMAIN'' None \<noteq> Inr (Some [])
   \<and> environ example_world ''WP_DOMAIN'' = Some []
   \<and> get_secret example_world ''WP_DOMAIN'' None
       = get_secret (example_world\<lparr>environ := (environ example_world)(''WP_DOMAIN'' := None)\<rparr>)
           ''WP_DOMAIN'' None
   \<and> load_from_env_file
         (example_world\<lparr>files := [''.env.local'' \<mapsto> [Line ''WP_DOMAIN=local.org'']]\<rparr>)
         ''WP_DOMAIN'' ''.env.local'' = Some ''local.org''
   \<and> get_secret (example_world\<lparr>files := [''.env.local'' \<mapsto> [Line ''WP_DOMAIN=local.org'']]\<rparr>)
         ''WP_DOMAIN'' None = Inr (Some ''local.org'')
   \<and> files example_world ''.env.local''
       = Some ([Line (''# local overrides'' @ [CHR 0x0A]), Line (''WP_USER=admin'' @ [CHR 0x0A])]
               @ Line (''WP_DOMAIN = '' @ [CHR 0x22, CHR 0x22, CHR 0x0A])
               # [Line (''WP_DOMAIN=other.org'' @ [CHR 0x0A])])
   \<and> load_from_env_file example_world ''WP_DOMAIN'' ''.env.local'' = None
   \<and> ''.env.local'' \<in> set env_file_paths
   \<and> get_secret example_world ''WP_DOMAIN'' None
       = get_secret (example_world\<lparr>files := (files example_world)(''.env.local'' := None)\<rparr>)
           ''WP_DOMAIN'' None
   \<and> load_from_env_file example_world ''WP_DOMAIN'' ''.env'' = Some ''site.org''
   \<and> get_secret example_world ''WP_DOMAIN'' None = Inr (Some ''site.org'')
   \<and> load_from_env_file (example_world\<lparr>files := Map.empty\<rparr>) ''WP_DOMAIN'' ''.env.local'' = None
   \<and> load_from_env_file (example_world\<lparr>files := Map.empty\<rparr>) ''WP_DOMAIN'' ''.env'' = None
   \<and> get_secret (example_world\<lparr>files := Map.empty\<rparr>) ''WP_DOMAIN'' (Some ''Domain'')
       = prompt_for_secret (example_world\<lparr>files := Map.empty\<rparr>) ''WP_DOMAIN'' ''Domain''
   \<and> get_secret (example_world\<lparr>files := Map.empty\<rparr>) ''WP_DOMAIN'' (Some ''Domain'') = Inr None"
proof -
  let ?pre = "[Line (''# local overrides'' @ [CHR 0x0A]), Line (''WP_USER=admin'' @ [CHR 0x0A])]"
  let ?l = "''WP_DOMAIN = '' @ [CHR 0x22, CHR 0x22, CHR 0x0A]"
  let ?rest = "[Line (''WP_DOMAIN=other.org'' @ [CHR 0x0A])]"
  let ?w2 = "example_world\<lparr>files := [''.env.local'' \<mapsto> [Line ''WP_DOMAIN=local.org'']]\<rparr>"
  let ?w3 = "example_world\<lparr>files := Map.empty\<rparr>"
  note T = get_secret_empty_is_absent
             [where w = example_world and key = "''WP_DOMAIN''" and prompt_message = None
                and env_file = "''.env.local''" and pre = ?pre and l = ?l and rest = ?rest
                and env_key = "''WP_DOMAIN ''" and env_value = "[CHR 0x20, CHR 0x22, CHR 0x22]"
                and v' = "''site.org''"]
  note T2 = get_secret_empty_is_absent
             [where w = ?w2 and key = "''WP_DOMAIN''" and prompt_message = None
                and v = "''local.org''"]
  note T3 = get_secret_empty_is_absent
             [where w = ?w3 and key = "''WP_DOMAIN''" and prompt_message = "Some ''Domain''"]
  have e: "environ example_world ''WP_DOMAIN'' = Some []"
    by (simp add: example_world_def)
  have f: "files example_world ''.env.local'' = Some (?pre @ Line ?l # ?rest)"
    by (simp add: example_world_def)
  have p: "scan_lines ''WP_DOMAIN'' ?pre = None" by code_simp
  have g: "\<not> startswith (strip ?l) ''#''" by code_simp
  have h: "CHR ''='' \<in> set (strip ?l)" by code_simp
  have i: "split_once (CHR ''='') (strip ?l) = (''WP_DOMAIN '', [CHR 0x20, CHR 0x22, CHR 0x22])"
    by code_simp
  have j: "strip ''WP_DOMAIN '' = ''WP_DOMAIN''" by code_simp
  have k: "strip_chars [CHR 0x27, CHR 0x22] (strip [CHR 0x20, CHR 0x22, CHR 0x22]) = []"
    by code_simp
  have m: "''.env.local'' \<in> set env_file_paths" by (simp add: env_file_paths_def)
  have n: "load_from_env_file example_world ''WP_DOMAIN'' ''.env'' = Some ''site.org''"
    by code_simp
  have e2: "environ ?w2 ''WP_DOMAIN'' = Some []"
    by (simp add: example_world_def)
  have l2: "load_from_env_file ?w2 ''WP_DOMAIN'' ''.env.local'' = Some ''local.org''"
    by code_simp
  have e3: "environ ?w3 ''WP_DOMAIN'' = Some []"
    by (simp add: example_world_def)
  have l3: "load_from_env_file ?w3 ''WP_DOMAIN'' ''.env.local'' = None"
    by (simp add: load_from_env_file_def)
  have l4: "load_from_env_file ?w3 ''WP_DOMAIN'' ''.env'' = None"
    by (simp add: load_from_env_file_def)
  have q: "prompt_for_secret ?w3 ''WP_DOMAIN'' ''Domain'' = Inr None"
    by code_simp
  have t1: "get_secret example_world ''WP_DOMAIN'' None \<noteq> Inr (Some [])"
    using T by blast
  have t2: "get_secret example_world ''WP_DOMAIN'' None
       = get_secret (example_world\<lparr>environ := (environ example_world)(''WP_DOMAIN'' := None)\<rparr>)
           ''WP_DOMAIN'' None"
    using T e by blast
  have t3: "get_secret ?w2 ''WP_DOMAIN'' None = Inr (Some ''local.org'')"
    using T2 e2 l2 by blast
  have t4: "load_from_env_file example_world ''WP_DOMAIN'' ''.env.local'' = None"
    using T f p g h i j k by blast
  have t5: "get_secret example_world ''WP_DOMAIN'' None
       = get_secret (example_world\<lparr>files := (files example_world)(''.env.local'' := None)\<rparr>)
           ''WP_DOMAIN'' None"
    using T m t4 by blast
  have t6: "get_secret example_world ''WP_DOMAIN'' None = Inr (Some ''site.org'')"
    using T e t4 n by blast
  have c: "(case Some ''Domain'' of
              None \<Rightarrow> Inr None
            | Some m \<Rightarrow> if m \<noteq> [] then prompt_for_secret ?w3 ''WP_DOMAIN'' m else Inr None)
           = prompt_for_secret ?w3 ''WP_DOMAIN'' ''Domain''"
    by simp
  have "get_secret ?w3 ''WP_DOMAIN'' (Some ''Domain'')
          = (case Some ''Domain'' of
               None \<Rightarrow> Inr None
             | Some m \<Rightarrow> if m \<noteq> [] then prompt_for_secret ?w3 ''WP_DOMAIN'' m else Inr None)"
    using T3 e3 l3 l4 by blast
  then have t7: "get_secret ?w3 ''WP_DOMAIN'' (Some ''Domain'')
              = prompt_for_secret ?w3 ''WP_DOMAIN'' ''Domain''"
    by (simp only: c)
  have t8: "get_secret ?w3 ''WP_DOMAIN'' (Some ''Domain'') = Inr None"
    using t7 q by simp
  show ?thesis
    using t1 e t2 l2 t3 f t4 m t5 n t6 l3 l4 t7 t8 by (intro conjI)
qed

section \<open>Facts about the validator\<close>

lemma validate_full_config_true_iff_no_errors:
  "fst (validate_full_config os config)
     \<longleftrightarrow> errors (snd (validate_full_config os config)) = []"
  by (simp add: validate_full_config_def Let_def)

text \<open>Only the retention check records the retention message.\<close>

lemma retention_msg_wordpress:
  "''Retention days must be between 1 and 365''
     \<in> set (errors (validate_wordpress_config os wp rp))
   \<longleftrightarrow> ''Retention days must be between 1 and 365'' \<in> set (errors rp)"
  by (simp add: validate_wordpress_config_def Let_def add_error_def add_warning_def
        split: option.splits)

lemma retention_msg_emails:
  "''Retention days must be between 1 and 365''
     \<in> set (errors (fold (\<lambda>email r. if \<not> is_valid_email email
                                      then add_error (''Invalid email format: '' @ email) r
                                      else r) es rp))
   \<longleftrightarrow> ''Retention days must be between 1 and 365'' \<in> set (errors rp)"
  by (induction es arbitrary: rp) (simp_all add: add_error_def)

lemma retention_msg_sharing:
  "''Retention days must be between 1 and 365''
     \<in> set (errors (validate_sharing_config sh rp))
   \<longleftrightarrow> ''Retention days must be between 1 and 365'' \<in> set (errors rp)"
  by (simp add: validate_sharing_config_def Let_def add_error_def retention_msg_emails
        split: option.splits)

lemma retention_msg_database:
  "''Retention days must be between 1 and 365''
     \<in> set (errors (validate_database_config db rp))
   \<longleftrightarrow> ''Retention days must be between 1 and 365'' \<in> set (errors rp)"
  by (simp add: validate_database_config_def Let_def add_error_def add_warning_def
        split: option.splits)

lemma retention_msg_google_drive:
  "''Retention days must be between 1 and 365''
     \<in> set (errors (validate_google_drive_config os gd rp))
   \<longleftrightarrow> ''Retention days must be between 1 and 365'' \<in> set (errors rp)
       \<or> (gd_retention_days gd \<noteq> PNone
           \<and> (\<not> isinstance_int (gd_retention_days gd) \<or> int_value (gd_retention_days gd) < 1
                \<or> int_value (gd_retention_days gd) > 365))"
  by (simp add: validate_google_drive_config_def Let_def add_error_def add_warning_def
        split: option.splits)

lemma retention_error_iff:
  "''Retention days must be between 1 and 365''
     \<in> set (errors (snd (validate_full_config os config)))
   \<longleftrightarrow> gd_retention_days (cd_google_drive config) \<noteq> PNone
       \<and> (\<not> isinstance_int (gd_retention_days (cd_google_drive config))
            \<or> int_value (gd_retention_days (cd_google_drive config)) < 1
            \<or> int_value (gd_retention_days (cd_google_drive config)) > 365)"
  by (simp add: validate_full_config_def Let_def retention_msg_wordpress
        retention_msg_google_drive retention_msg_sharing retention_msg_database
        split: option.splits)

text \<open>
  A \<open>bool\<close> passes \<open>isinstance(v, int)\<close> and is compared as a number: \<open>True\<close> is within
  the bounds, \<open>False\<close> is not.
\<close>

lemma retention_days_bool_is_an_int:
  "(''Retention days must be between 1 and 365''
      \<in> set (errors (snd (validate_full_config os
            (config\<lparr>cd_google_drive := gd\<lparr>gd_retention_days := PBool b\<rparr>\<rparr>)))))
   \<longleftrightarrow> \<not> b"
  by (simp add: retention_error_iff)

subsection \<open>C8\<close>

text \<open>
  C8. A configured \<open>retention_days\<close> of 0, of 366, or of a type that is not an integer
  type makes \<open>validate_full_config\<close> record the retention error and return false; the
  values 1 and 365 record no retention error, and neither does an absent
  \<open>retention_days\<close>.
\<close>

theorem retention_days_validation:
  assumes "gd_retention_days (cd_google_drive config) = v"
  shows "(v = PInt 0 \<or> v = PInt 366 \<or> (v \<noteq> PNone \<and> \<not> isinstance_int v) \<longrightarrow>
            ''Retention days must be between 1 and 365''
              \<in> set (errors (snd (validate_full_config os config)))
            \<and> \<not> fst (validate_full_config os config))
         \<and> (v = PInt 1 \<or> v = PInt 365 \<or> v = PNone \<longrightarrow>
            ''Retention days must be between 1 and 365''
              \<notin> set (errors (snd (validate_full_config os config))))"
proof (intro conjI impI)
  assume bad: "v = PInt 0 \<or> v = PInt 366 \<or> (v \<noteq> PNone \<and> \<not> isinstance_int v)"
  with assms show e: "''Retention days must be between 1 and 365''
              \<in> set (errors (snd (validate_full_config os config)))"
    by (auto simp: retention_error_iff)
  then have "errors (snd (validate_full_config os config)) \<noteq> []"
    by auto
  then show "\<not> fst (validate_full_config os config)"
    by (simp add: validate_full_config_true_iff_no_errors)
next
  assume "v = PInt 1 \<or> v = PInt 365 \<or> v = PNone"
  with assms show "''Retention days must be between 1 and 365''
              \<notin> set (errors (snd (validate_full_config os config)))"
    by (auto simp: retention_error_iff)
qed

theorem retention_days_validation_witness:
  "gd_retention_days (cd_google_drive
       (valid_config\<lparr>cd_google_drive := (cd_google_drive valid_config)
                        \<lparr>gd_retention_days := PInt 366\<rparr>\<rparr>)) = PInt 366
   \<and> ''Retention days must be between 1 and 365''
       \<in> set (errors (snd (validate_full_config example_platform
             (valid_config\<lparr>cd_google_drive := (cd_google_drive valid_config)
                              \<lparr>gd_retention_days := PInt 366\<rparr>\<rparr>))))
   \<and> \<not> fst (validate_full_config example_platform
             (valid_config\<lparr>cd_google_drive := (cd_google_drive valid_config)
                              \<lparr>gd_retention_days := PInt 366\<rparr>\<rparr>))
   \<and> gd_retention_days (cd_google_drive
       (valid_config\<lparr>cd_google_drive := (cd_google_drive valid_config)
                        \<lparr>gd_retention_days := PStr ''7''\<rparr>\<rparr>)) = PStr ''7''
   \<and> \<not> fst (validate_full_config example_platform
             (valid_config\<lparr>cd_google_drive := (cd_google_drive valid_config)
                              \<lparr>gd_retention_days := PStr ''7''\<rparr>\<rparr>))
   \<and> gd_retention_days (cd_google_drive
       (valid_config\<lparr>cd_google_drive := (cd_google_drive valid_config)
                        \<lparr>gd_retention_days := PInt 365\<rparr>\<rparr>)) = PInt 365
   \<and> ''Retention days must be between 1 and 365''
       \<notin> set (errors (snd (validate_full_config example_platform
             (valid_config\<lparr>cd_google_drive := (cd_google_drive valid_config)
                              \<lparr>gd_retention_days := PInt 365\<rparr>\<rparr>))))"
proof -
  let ?c = "\<lambda>v. valid_config\<lparr>cd_google_drive := (cd_google_drive valid_config)
                                  \<lparr>gd_retention_days := v\<rparr>\<rparr>"
  have a: "gd_retention_days (cd_google_drive (?c v)) = v" for v
    by simp
  have i: "\<not> isinstance_int (PStr ''7'')" "PStr ''7'' \<noteq> PNone"
    by simp_all
  from retention_days_validation [OF a, of "PInt 366" example_platform]
       retention_days_validation [OF a, of "PStr ''7''" example_platform]
       retention_days_validation [OF a, of "PInt 365" example_platform]
       a [of "PInt 366"] a [of "PStr ''7''"] a [of "PInt 365"] i
  show ?thesis by blast
qed

subsection \<open>C9\<close>

text \<open>
  C9. \<open>validate_full_config\<close> returns true exactly when no error was recorded (the lemma
  \<open>validate_full_config_true_iff_no_errors\<close>), and for the placeholder domains
  \<open>example.com\<close> and \<open>test.com\<close> an otherwise valid configuration gets a warning only.
  For \<open>localhost\<close> the code does otherwise: the format check comes first and rejects a
  name without a dot, so the branch that would warn is never reached for it.
\<close>

theorem localhost_is_an_error_not_a_warning:
  "validate_full_config example_platform
     (valid_config\<lparr>cd_wordpress := (cd_wordpress valid_config)\<lparr>wp_domain := Some ''localhost''\<rparr>\<rparr>)
     = (False, \<lparr>errors = [''Invalid WordPress domain format: localhost''], warnings = []\<rparr>)
   \<and> validate_full_config example_platform
     (valid_config\<lparr>cd_wordpress := (cd_wordpress valid_config)\<lparr>wp_domain := Some ''example.com''\<rparr>\<rparr>)
     = (True, \<lparr>errors = [],
               warnings = [''WordPress domain looks like a placeholder: example.com'']\<rparr>)
   \<and> validate_full_config example_platform
     (valid_config\<lparr>cd_wordpress := (cd_wordpress valid_config)\<lparr>wp_domain := Some ''test.com''\<rparr>\<rparr>)
     = (True, \<lparr>errors = [],
               warnings = [''WordPress domain looks like a placeholder: test.com'']\<rparr>)"
  by code_simp

lemma localhost_not_domain_shaped: "\<not> is_valid_domain ''localhost''"
  by code_simp

lemma localhost_rejected_in_every_configuration:
  assumes "wp_domain (cd_wordpress config) = Some ''localhost''"
  shows "\<not> fst (validate_full_config os config)"
proof -
  have "''Invalid WordPress domain format: localhost''
          \<in> set (errors (validate_wordpress_config os (cd_wordpress config) rp))" for rp
    using assms localhost_not_domain_shaped
    by (simp add: validate_wordpress_config_def Let_def add_error_def add_warning_def
          split: option.splits)
  moreover have "m \<in> set (errors rp) \<Longrightarrow> m \<in> set (errors (validate_google_drive_config os gd rp))"
    for m rp gd
    by (simp add: validate_google_drive_config_def Let_def add_error_def add_warning_def
        split: option.splits)
  moreover have "m \<in> set (errors rp) \<Longrightarrow> m \<in> set (errors (fold (\<lambda>email r. if \<not> is_valid_email email
                                      then add_error (''Invalid email format: '' @ email) r
                                      else r) es rp))" for m rp es
    by (induction es arbitrary: rp) (simp_all add: add_error_def)
  then have "m \<in> set (errors rp) \<Longrightarrow> m \<in> set (errors (validate_sharing_config sh rp))"
    for m rp sh
    by (simp add: validate_sharing_config_def Let_def add_error_def split: option.splits)
  moreover have "m \<in> set (errors rp) \<Longrightarrow> m \<in> set (errors (validate_database_config db rp))"
    for m rp db
    by (simp add: validate_database_config_def Let_def add_error_def add_warning_def
        split: option.splits)
  ultimately have "''Invalid WordPress domain format: localhost''
          \<in> set (errors (snd (validate_full_config os config)))"
    by (simp add: validate_full_config_def Let_def split: option.splits)
  then have "errors (snd (validate_full_config os config)) \<noteq> []"
    by auto
  then show ?thesis
    by (simp add: validate_full_config_true_iff_no_errors)
qed

end
